theory Spec2Isabelle
  imports Main
begin

section \<open>Python values and library functions used by \<^verbatim>\<open>ssh_router.py\<close>\<close>

text \<open>
  The route table is JSON. A field of a route object is read with \<^verbatim>\<open>route.get(key)\<close>,
  so three cases are told apart: the key is absent, it holds \<^verbatim>\<open>null\<close>, or it holds
  a string. Route tables whose entries are not objects, or whose fields hold numbers, lists
  or objects, are outside the model. A Python value that is either \<^verbatim>\<open>None\<close> or a
  \<^verbatim>\<open>str\<close> is a \<open>string option\<close>.
\<close>

datatype jfield = Absent | JNull | JStr string

record route =
  network :: jfield
  via :: jfield
  description :: jfield

text \<open>\<^verbatim>\<open>d.get(key)\<close> and \<^verbatim>\<open>d.get(key, default)\<close>.\<close>

fun dict_get :: "jfield \<Rightarrow> string option" where
  "dict_get Absent = None"
| "dict_get JNull = None"
| "dict_get (JStr s) = Some s"

fun dict_get_default :: "jfield \<Rightarrow> string \<Rightarrow> string option" where
  "dict_get_default Absent d = Some d"
| "dict_get_default JNull d = None"
| "dict_get_default (JStr s) d = Some s"

text \<open>Truth value of \<^verbatim>\<open>None\<close> or a string, as \<^verbatim>\<open>if x:\<close> tests it.\<close>

fun truthy :: "string option \<Rightarrow> bool" where
  "truthy None = False"
| "truthy (Some s) = (s \<noteq> [])"

text \<open>\<^verbatim>\<open>str(x)\<close> inside an f-string.\<close>

fun py_str :: "string option \<Rightarrow> string" where
  "py_str None = ''None''"
| "py_str (Some s) = s"

text \<open>\<^verbatim>\<open>s.split(c)\<close> for a one-character separator: never an empty list.\<close>

fun split_on :: "char \<Rightarrow> string \<Rightarrow> string list" where
  "split_on c [] = [[]]"
| "split_on c (x # xs) =
     (if x = c then [] # split_on c xs
      else (case split_on c xs of
              [] \<Rightarrow> [[x]]
            | w # ws \<Rightarrow> (x # w) # ws))"

datatype pyerr = IndexError | TypeError | AttributeError

text \<open>\<^verbatim>\<open>xs[0]\<close> and \<^verbatim>\<open>xs[-1]\<close>: an IndexError on the empty list.\<close>

definition index_first :: "'a list \<Rightarrow> pyerr + 'a" where
  "index_first xs = (case xs of [] \<Rightarrow> Inl IndexError | x # _ \<Rightarrow> Inr x)"

definition index_last :: "'a list \<Rightarrow> pyerr + 'a" where
  "index_last xs = (if xs = [] then Inl IndexError else Inr (last xs))"

text \<open>
  The standard library is not part of the repository; the functions the program calls are
  parameters of the model. \<open>ip_address\<close> and \<open>ip_network\<close> are \<open>None\<close> where the
  library raises; a network is the predicate \<^verbatim>\<open>addr in network\<close>. \<open>path_name\<close> and
  \<open>path_stem\<close> are \<^verbatim>\<open>Path(p).name\<close> and \<^verbatim>\<open>Path(p).stem\<close>, \<open>split_ws\<close> is
  \<^verbatim>\<open>s.split()\<close> and \<open>str_strip\<close> is \<^verbatim>\<open>s.strip()\<close>.
\<close>

record 'a pylib =
  ip_address :: "string \<Rightarrow> 'a option"
  ip_network :: "string \<Rightarrow> ('a \<Rightarrow> bool) option"
  path_name :: "string \<Rightarrow> string"
  path_stem :: "string \<Rightarrow> string"
  split_ws :: "string \<Rightarrow> string list"
  str_strip :: "string \<Rightarrow> string"

section \<open>Route resolution\<close>

text \<open>
  \<^verbatim>\<open>ip_in_network\<close>: any exception of the two parsers gives False. The selector comes
  from \<^verbatim>\<open>route.get('network')\<close> and may be \<^verbatim>\<open>None\<close>, on which
  \<^verbatim>\<open>ip_network\<close> raises.
\<close>

definition ip_in_network :: "'a pylib \<Rightarrow> string \<Rightarrow> string option \<Rightarrow> bool" where
  "ip_in_network lib ip net =
     (case ip_address lib ip of
        None \<Rightarrow> False
      | Some a \<Rightarrow>
          (case net of
             None \<Rightarrow> False
           | Some n \<Rightarrow>
               (case ip_network lib n of
                  None \<Rightarrow> False
                | Some contains \<Rightarrow> contains a)))"

text \<open>Every \<^verbatim>\<open>print(...); sys.exit(1)\<close> of the program is a value of \<open>fatal\<close>.\<close>

datatype fatal =
    RoutesFileNotFound string
  | InvalidJson string
  | RoutesKeyMissing string
  | NoRouteFound string
  | TargetRequired
  | PayloadRequired

text \<open>
  The loop of \<^verbatim>\<open>find_route\<close> over the routes that are left; \<open>default_route\<close> is
  the local variable of that name, \<^verbatim>\<open>None\<close> when the loop starts.
\<close>

fun find_route_loop ::
  "'a pylib \<Rightarrow> string \<Rightarrow> string option \<Rightarrow> route list \<Rightarrow> fatal + string option" where
  "find_route_loop lib target_ip default_route [] =
     (if truthy default_route then Inr default_route else Inl (NoRouteFound target_ip))"
| "find_route_loop lib target_ip default_route (r # rs) =
     (let net = dict_get (network r);
          jump_chain = dict_get (via r)
      in if net = Some ''default'' then find_route_loop lib target_ip jump_chain rs
         else if net = Some ''direct'' then find_route_loop lib target_ip default_route rs
         else if ip_in_network lib target_ip net then Inr jump_chain
         else find_route_loop lib target_ip default_route rs)"

definition find_route :: "'a pylib \<Rightarrow> string \<Rightarrow> route list \<Rightarrow> fatal + string option" where
  "find_route lib target_ip routes = find_route_loop lib target_ip None routes"

section \<open>The world outside the process\<close>

text \<open>
  \<^verbatim>\<open>subprocess.run\<close> either returns a completed process (return code, stdout, stderr)
  or raises. The arguments of a command are Python values: \<^verbatim>\<open>None\<close> can reach a
  command line through a route without a \<^verbatim>\<open>via\<close>, and \<^verbatim>\<open>subprocess.run\<close>
  raises a TypeError on it before any process is started.
\<close>

datatype exn = TimeoutExpired | ArgTypeError | OtherException string

datatype outcome = Completed int string string | Raised exn

type_synonym argv = "string option list"

datatype routes_source = FileMissing | BadJson string | Json "route list option"

text \<open>
  What the process reads from its environment. \<open>subprocess w n\<close> is the outcome of the
  \<open>n\<close>-th call of \<^verbatim>\<open>subprocess.run\<close> (counted from 0): the program is
  deterministic, so the sequence of outcomes fixes a run. \<open>gethostbyname\<close> is \<open>None\<close>
  where the resolver raises. \<open>read_routes\<close> is what \<^verbatim>\<open>json.load\<close> finds in the
  routes file: \<open>Json None\<close> is a document without the key \<^verbatim>\<open>routes\<close>.
\<close>

record world =
  read_routes :: "string \<Rightarrow> routes_source"
  gethostbyname :: "string \<Rightarrow> string option"
  subprocess :: "nat \<Rightarrow> outcome"
  getpid :: nat
  now_strftime :: string
  now_isoformat :: string
  user_at_node :: string
  mkdir_ok :: "string \<Rightarrow> bool"
  open_ok :: "string \<Rightarrow> bool"

section \<open>The router object\<close>

text \<open>Entries of \<^verbatim>\<open>result['errors']\<close>; \<open>ExcStr e\<close> is \<^verbatim>\<open>str(e)\<close>.\<close>

datatype errmsg = ConnectionTestFailed | ConnectionTestFailedWith string | UploadFailed string | ExcStr exn

text \<open>
  The dictionary \<^verbatim>\<open>self.result\<close>. The keys \<^verbatim>\<open>exit_code\<close> and
  \<^verbatim>\<open>remote_script_path\<close> are absent (\<open>None\<close>) until they are assigned.
\<close>

record result =
  operation :: string
  res_timestamp :: string
  res_target_host :: string
  res_target_ip :: string
  res_route :: "string option"
  res_command :: "string option"
  res_script :: "string option"
  executed_by :: string
  success :: bool
  res_output :: string
  errors :: "errmsg list"
  exit_code :: "int option"
  remote_script_path :: "string option"

text \<open>The attributes of \<^verbatim>\<open>SSHRouter\<close> that are fixed by the constructor.\<close>

record router =
  routes_file :: string
  target_host :: string
  command :: "string option"
  script :: "string option"
  ssh_key :: "string option"
  save_output :: bool
  output_dir :: string
  timestamp :: string
  routes :: "route list"
  target_ip :: string
  jump_chain :: "string option"
  audit_dir :: string

text \<open>
  What a run changes: \<^verbatim>\<open>self.result\<close>, the calls of \<^verbatim>\<open>subprocess.run\<close> made so
  far (command line and timeout, in order), and the files written by
  \<^verbatim>\<open>save_output_file\<close> (path and the dumped result).
\<close>

record state =
  result :: result
  calls :: "(argv \<times> nat option) list"
  files :: "(string \<times> result) list"

definition subprocess_run :: "world \<Rightarrow> argv \<Rightarrow> nat option \<Rightarrow> state \<Rightarrow> outcome \<times> state" where
  "subprocess_run w cmd tmo s =
     ((if None \<in> set cmd then Raised ArgTypeError else subprocess w (length (calls s))),
      s\<lparr>calls := calls s @ [(cmd, tmo)]\<rparr>)"

definition add_error :: "errmsg \<Rightarrow> state \<Rightarrow> state" where
  "add_error e s = s\<lparr>result := (result s)\<lparr>errors := errors (result s) @ [e]\<rparr>\<rparr>"

subsection \<open>Constructor\<close>

definition load_routes :: "world \<Rightarrow> string \<Rightarrow> fatal + route list" where
  "load_routes w file =
     (case read_routes w file of
        FileMissing \<Rightarrow> Inl (RoutesFileNotFound file)
      | BadJson e \<Rightarrow> Inl (InvalidJson e)
      | Json None \<Rightarrow> Inl (RoutesKeyMissing file)
      | Json (Some rs) \<Rightarrow> Inr rs)"

definition extract_ip :: "'a pylib \<Rightarrow> world \<Rightarrow> string \<Rightarrow> pyerr + string" where
  "extract_ip lib w host =
     (case index_last (split_on CHR ''@'' host) of
        Inl e \<Rightarrow> Inl e
      | Inr a \<Rightarrow>
          (case index_first (split_on CHR '':'' a) of
             Inl e \<Rightarrow> Inl e
           | Inr addr \<Rightarrow>
               Inr (case ip_address lib addr of
                      Some _ \<Rightarrow> addr
                    | None \<Rightarrow>
                        (case gethostbyname w addr of
                           Some ip \<Rightarrow> ip
                         | None \<Rightarrow> addr))))"

text \<open>A process ends by \<^verbatim>\<open>sys.exit\<close> after a message, or by an uncaught exception.\<close>

datatype abort = Fatal fatal | Uncaught pyerr

text \<open>
  \<^verbatim>\<open>Path(d) / f\<close>, as text. What \<^verbatim>\<open>pathlib\<close> does beyond joining (dropping a
  leading \<^verbatim>\<open>./\<close>, an absolute second part) is not modelled.
\<close>

definition path_join :: "string \<Rightarrow> string \<Rightarrow> string" where
  "path_join d f = d @ ''/'' @ f"

definition init ::
  "'a pylib \<Rightarrow> world \<Rightarrow> string \<Rightarrow> string \<Rightarrow> string option \<Rightarrow> string option \<Rightarrow> string option
     \<Rightarrow> bool \<Rightarrow> string \<Rightarrow> abort + router \<times> state" where
  "init lib w file host cmd scr key save outdir =
     (case load_routes w file of
        Inl f \<Rightarrow> Inl (Fatal f)
      | Inr rs \<Rightarrow>
          (case extract_ip lib w host of
             Inl e \<Rightarrow> Inl (Uncaught e)
           | Inr ip \<Rightarrow>
               (case find_route lib ip rs of
                  Inl f \<Rightarrow> Inl (Fatal f)
                | Inr chain \<Rightarrow>
                    Inr (\<lparr>routes_file = file, target_host = host, command = cmd, script = scr,
                          ssh_key = key, save_output = save, output_dir = outdir,
                          timestamp = now_strftime w, routes = rs, target_ip = ip,
                          jump_chain = chain, audit_dir = path_join outdir ip\<rparr>,
                         \<lparr>result =
                            \<lparr>operation = ''ssh_router'', res_timestamp = now_isoformat w,
                             res_target_host = host, res_target_ip = ip, res_route = chain,
                             res_command = cmd, res_script = scr,
                             executed_by = user_at_node w, success = False, res_output = [],
                             errors = [], exit_code = None, remote_script_path = None\<rparr>,
                          calls = [], files = []\<rparr>))))"

subsection \<open>Transport command\<close>

text \<open>
  \<^verbatim>\<open>build_ssh_command\<close>, statement by statement. Every caller passes a list as
  \<^verbatim>\<open>command_args\<close>, so only that branch of the \<^verbatim>\<open>isinstance\<close> test is modelled.
\<close>

definition build_ssh_command :: "router \<Rightarrow> argv \<Rightarrow> bool \<Rightarrow> argv" where
  "build_ssh_command self command_args use_jump =
     (let ssh_cmd = [Some ''ssh''];
          ssh_cmd = (if truthy (ssh_key self) then ssh_cmd @ [Some ''-i'', ssh_key self]
                     else ssh_cmd);
          ssh_cmd = ssh_cmd @ [Some ''-o'', Some ''StrictHostKeyChecking=accept-new'',
                               Some ''-o'', Some ''ConnectTimeout=10''];
          ssh_cmd = (if use_jump \<and> jump_chain self \<noteq> Some ''direct''
                     then ssh_cmd @ [Some ''-J'', jump_chain self]
                     else ssh_cmd);
          ssh_cmd = ssh_cmd @ [Some (target_host self)]
      in ssh_cmd @ command_args)"

subsection \<open>Preflight and dispatch\<close>

text \<open>Progress messages printed during a run are not part of the model.\<close>

definition echo_ok :: string where
  "echo_ok = ''echo '' @ [CHR 0x27] @ ''ok'' @ [CHR 0x27]"

definition test_connectivity :: "world \<Rightarrow> router \<Rightarrow> state \<Rightarrow> bool \<times> state" where
  "test_connectivity w self s =
     (let use_jump = (jump_chain self \<noteq> Some ''direct'');
          ssh_cmd = build_ssh_command self [Some echo_ok] use_jump
      in case subprocess_run w ssh_cmd (Some 10) s of
           (Completed rc out err, s1) \<Rightarrow>
             if rc = 0 then (True, s1) else (False, add_error ConnectionTestFailed s1)
         | (Raised e, s1) \<Rightarrow> (False, add_error (ExcStr e) s1))"

definition record_outcome :: "int \<Rightarrow> string \<Rightarrow> string \<Rightarrow> state \<Rightarrow> state" where
  "record_outcome rc out err s =
     s\<lparr>result := (result s)\<lparr>res_output := out @ err, exit_code := Some rc, success := (rc = 0)\<rparr>\<rparr>"

definition execute_command :: "world \<Rightarrow> router \<Rightarrow> state \<Rightarrow> bool \<times> state" where
  "execute_command w self s =
     (let use_jump = (jump_chain self \<noteq> Some ''direct'');
          ssh_cmd = build_ssh_command self [command self] use_jump
      in case subprocess_run w ssh_cmd (Some 300) s of
           (Completed rc out err, s1) \<Rightarrow> (rc = 0, record_outcome rc out err s1)
         | (Raised e, s1) \<Rightarrow> (False, add_error (ExcStr e) s1))"

fun str_nat :: "nat \<Rightarrow> string" where
  "str_nat n =
     (if n < 10 then [''0123456789'' ! n]
      else str_nat (n div 10) @ [''0123456789'' ! (n mod 10)])"

declare str_nat.simps [simp del]

definition remote_script_of :: "'a pylib \<Rightarrow> world \<Rightarrow> string \<Rightarrow> string" where
  "remote_script_of lib w p = ''/tmp/'' @ path_name lib p @ ''.'' @ str_nat (getpid w)"

definition scp_command :: "router \<Rightarrow> string \<Rightarrow> string \<Rightarrow> argv" where
  "scp_command self p remote_script =
     (let scp_cmd = [Some ''scp''];
          scp_cmd = (if truthy (ssh_key self) then scp_cmd @ [Some ''-i'', ssh_key self]
                     else scp_cmd);
          scp_cmd = scp_cmd @ [Some ''-o'', Some ''StrictHostKeyChecking=accept-new''];
          scp_cmd = (if jump_chain self \<noteq> Some ''direct''
                     then scp_cmd @ [Some ''-o'', Some (''ProxyJump='' @ py_str (jump_chain self))]
                     else scp_cmd)
      in scp_cmd @ [Some p, Some (target_host self @ '':'' @ remote_script)])"

text \<open>
  \<^verbatim>\<open>execute_script\<close>. \<^verbatim>\<open>Path(self.script)\<close> stands before the \<^verbatim>\<open>try\<close>: with
  no script it is an uncaught TypeError. Inside the \<^verbatim>\<open>try\<close>, an exception of any
  \<^verbatim>\<open>subprocess.run\<close> leaves the block at once for the handler.
\<close>

definition execute_script ::
  "'a pylib \<Rightarrow> world \<Rightarrow> router \<Rightarrow> bool \<Rightarrow> state \<Rightarrow> pyerr + bool \<times> state" where
  "execute_script lib w self keep_script s =
     (case script self of
        None \<Rightarrow> Inl TypeError
      | Some p \<Rightarrow>
          Inr (let remote_script = remote_script_of lib w p
               in case subprocess_run w (scp_command self p remote_script) None s of
                    (Raised e, s1) \<Rightarrow> (False, add_error (ExcStr e) s1)
                  | (Completed rc out err, s1) \<Rightarrow>
                      if rc \<noteq> 0 then (False, s1)
                      else
                        (let use_jump = (jump_chain self \<noteq> Some ''direct'');
                             chmod_cmd = build_ssh_command self
                                           [Some (''chmod +x '' @ remote_script)] use_jump
                         in case subprocess_run w chmod_cmd None s1 of
                              (Raised e, s2) \<Rightarrow> (False, add_error (ExcStr e) s2)
                            | (Completed _ _ _, s2) \<Rightarrow>
                                (let exec_cmd = build_ssh_command self [Some remote_script] use_jump
                                 in case subprocess_run w exec_cmd (Some 300) s2 of
                                      (Raised e, s3) \<Rightarrow> (False, add_error (ExcStr e) s3)
                                    | (Completed rc out err, s3) \<Rightarrow>
                                        (let s4 = record_outcome rc out err s3
                                         in if \<not> keep_script then
                                              (let cleanup_cmd = build_ssh_command self
                                                     [Some (''rm -f '' @ remote_script)] use_jump
                                               in case subprocess_run w cleanup_cmd None s4 of
                                                    (Raised e, s5) \<Rightarrow>
                                                      (False, add_error (ExcStr e) s5)
                                                  | (Completed _ _ _, s5) \<Rightarrow> (rc = 0, s5))
                                            else (rc = 0, s4))))))"

subsection \<open>Audit record\<close>

definition script_output_file :: "'a pylib \<Rightarrow> router \<Rightarrow> pyerr + string" where
  "script_output_file lib self =
     (case script self of
        None \<Rightarrow> Inl TypeError
      | Some p \<Rightarrow>
          Inr (path_join (audit_dir self)
                 (''script-'' @ path_stem lib p @ ''-'' @ timestamp self @ ''.json'')))"

definition output_file :: "'a pylib \<Rightarrow> router \<Rightarrow> pyerr + string" where
  "output_file lib self =
     (case command self of
        None \<Rightarrow> script_output_file lib self
      | Some c \<Rightarrow>
          if c = [] then script_output_file lib self
          else (case index_first (split_ws lib c) of
                  Inl e \<Rightarrow> Inl e
                | Inr tok \<Rightarrow>
                    Inr (path_join (audit_dir self)
                           (map (\<lambda>x. if x = CHR ''/'' then CHR ''_'' else x) tok
                              @ ''-'' @ timestamp self @ ''.json''))))"

text \<open>
  \<^verbatim>\<open>save_output_file\<close>: nothing is written when saving is switched off; every exception
  inside the \<^verbatim>\<open>try\<close> (directory, file name, open) is caught and only reported.
\<close>

definition save_output_file :: "'a pylib \<Rightarrow> world \<Rightarrow> router \<Rightarrow> state \<Rightarrow> state" where
  "save_output_file lib w self s =
     (if \<not> save_output self then s
      else if \<not> mkdir_ok w (audit_dir self) then s
      else (case output_file lib self of
              Inl e \<Rightarrow> s
            | Inr f \<Rightarrow>
                if open_ok w f then s\<lparr>files := files s @ [(f, result s)]\<rparr> else s))"

subsection \<open>A run\<close>

definition run :: "'a pylib \<Rightarrow> world \<Rightarrow> router \<Rightarrow> bool \<Rightarrow> state \<Rightarrow> pyerr + bool \<times> state" where
  "run lib w self keep_script s =
     (case test_connectivity w self s of
        (False, s1) \<Rightarrow> Inr (False, save_output_file lib w self s1)
      | (True, s1) \<Rightarrow>
          if truthy (command self) then
            (case execute_command w self s1 of
               (ok, s2) \<Rightarrow> Inr (ok, save_output_file lib w self s2))
          else if truthy (script self) then
            (case execute_script lib w self keep_script s1 of
               Inl e \<Rightarrow> Inl e
             | Inr (ok, s2) \<Rightarrow> Inr (ok, save_output_file lib w self s2))
          else Inr (False, s1))"

subsection \<open>List mode and \<^verbatim>\<open>main\<close>\<close>

text \<open>
  What list mode and the fatal exits print, one constructor for each \<^verbatim>\<open>print\<close>
  (\<open>HeaderLines\<close> stands for the four lines of the heading, \<open>TotalLines\<close> for the three
  of the footer).
\<close>

datatype line =
    FatalMsg fatal
  | Traceback pyerr
  | HeaderLines string
  | DefaultRouteLine nat
  | RouteLine nat "string option"
  | DescriptionLine "string option"
  | JumpDirectLine
  | JumpChainLine "string option"
  | TestingLine
  | ReachableLine
  | UnreachableLine
  | BlankLine
  | TotalLines nat

definition probe_command :: "string \<Rightarrow> argv" where
  "probe_command first_hop =
     [Some ''ssh'', Some ''-o'', Some ''ConnectTimeout=5'',
      Some ''-o'', Some ''StrictHostKeyChecking=accept-new'', Some first_hop, Some ''echo ok'']"

text \<open>
  The loop of \<^verbatim>\<open>list_routes\<close> over \<^verbatim>\<open>enumerate(self.routes, 1)\<close>. A route whose
  \<^verbatim>\<open>via\<close> is \<^verbatim>\<open>null\<close> ends it with an AttributeError (\<^verbatim>\<open>None.split\<close>), which
  nothing catches. The result is the exception (if any), the lines printed and the state.
\<close>

fun list_routes_loop ::
  "world \<Rightarrow> nat \<Rightarrow> route list \<Rightarrow> line list \<Rightarrow> state \<Rightarrow> pyerr option \<times> line list \<times> state" where
  "list_routes_loop w idx [] out s = (None, out, s)"
| "list_routes_loop w idx (r # rs) out s =
     (let net = dict_get_default (network r) ''unknown'';
          chain = dict_get_default (via r) [];
          desc = dict_get_default (description r) [];
          out = out @ [if net = Some ''default'' then DefaultRouteLine idx else RouteLine idx net];
          out = (if truthy desc then out @ [DescriptionLine desc] else out)
      in if chain = Some ''direct'' then
           list_routes_loop w (idx + 1) rs (out @ [JumpDirectLine, BlankLine]) s
         else
           (let out = out @ [JumpChainLine chain]
            in case chain of
                 None \<Rightarrow> (Some AttributeError, out, s)
               | Some c \<Rightarrow>
                   (case index_first (split_on CHR '','' c) of
                      Inl e \<Rightarrow> (Some e, out, s)
                    | Inr first_hop \<Rightarrow>
                        (case subprocess_run w (probe_command first_hop) (Some 10) s of
                           (Completed rc _ _, s1) \<Rightarrow>
                             list_routes_loop w (idx + 1) rs
                               (out @ [TestingLine,
                                       if rc = 0 then ReachableLine else UnreachableLine,
                                       BlankLine]) s1
                         | (Raised _, s1) \<Rightarrow>
                             list_routes_loop w (idx + 1) rs
                               (out @ [TestingLine, UnreachableLine, BlankLine]) s1))))"

definition list_routes :: "world \<Rightarrow> router \<Rightarrow> state \<Rightarrow> pyerr option \<times> line list \<times> state" where
  "list_routes w self s =
     (case list_routes_loop w 1 (routes self) [HeaderLines (routes_file self)] s of
        (None, out, s1) \<Rightarrow> (None, out @ [TotalLines (length (routes self))], s1)
      | (Some e, out, s1) \<Rightarrow> (Some e, out, s1))"

text \<open>The command line, as \<^verbatim>\<open>argparse\<close> hands it over.\<close>

record args =
  arg_routes :: string
  arg_target :: "string option"
  arg_command :: "string option"
  arg_script :: "string option"
  arg_key :: "string option"
  arg_list :: bool
  arg_upload :: bool
  arg_no_save :: bool
  arg_output :: string

text \<open>
  How the process ends: its exit status, the lines of list mode and of the fatal exits, the
  commands it has run and the files it has written. An uncaught exception ends the
  interpreter with status 1.
\<close>

record process =
  status :: nat
  printed :: "line list"
  invoked :: "(argv \<times> nat option) list"
  written :: "(string \<times> result) list"

fun aborted :: "abort \<Rightarrow> process" where
  "aborted (Fatal f) = \<lparr>status = 1, printed = [FatalMsg f], invoked = [], written = []\<rparr>"
| "aborted (Uncaught e) = \<lparr>status = 1, printed = [Traceback e], invoked = [], written = []\<rparr>"

definition main :: "'a pylib \<Rightarrow> world \<Rightarrow> args \<Rightarrow> process" where
  "main lib w a =
     (if arg_list a then
        (case init lib w (arg_routes a) ''dummy@localhost'' None None None True ''./audit'' of
           Inl ab \<Rightarrow> aborted ab
         | Inr (self, s) \<Rightarrow>
             (case list_routes w self s of
                (None, out, s1) \<Rightarrow>
                  \<lparr>status = 0, printed = out, invoked = calls s1, written = files s1\<rparr>
              | (Some e, out, s1) \<Rightarrow>
                  \<lparr>status = 1, printed = out @ [Traceback e], invoked = calls s1,
                   written = files s1\<rparr>))
      else
        (case arg_target a of
           None \<Rightarrow> \<lparr>status = 1, printed = [FatalMsg TargetRequired], invoked = [], written = []\<rparr>
         | Some t \<Rightarrow>
             if t = [] then
               \<lparr>status = 1, printed = [FatalMsg TargetRequired], invoked = [], written = []\<rparr>
             else if \<not> truthy (arg_command a) \<and> \<not> truthy (arg_script a) then
               \<lparr>status = 1, printed = [FatalMsg PayloadRequired], invoked = [], written = []\<rparr>
             else
               (case init lib w (arg_routes a) t (arg_command a) (arg_script a) (arg_key a)
                       (\<not> arg_no_save a) (arg_output a) of
                  Inl ab \<Rightarrow> aborted ab
                | Inr (self, s) \<Rightarrow>
                    (case run lib w self (arg_upload a) s of
                       Inl e \<Rightarrow>
                         \<lparr>status = 1, printed = [Traceback e], invoked = calls s,
                          written = files s\<rparr>
                     | Inr (ok, s1) \<Rightarrow>
                         \<lparr>status = (if ok then 0 else 1), printed = [],
                          invoked = calls s1, written = files s1\<rparr>))))"

section \<open>The fixed-chain executor of \<^verbatim>\<open>ssh_jump_exec.py\<close>\<close>

text \<open>
  \<^verbatim>\<open>SSHJumpExecutor\<close> takes the chain from the command line instead of a route table.
  Its result dictionary has the key \<^verbatim>\<open>jump_chain\<close> where the router has
  \<^verbatim>\<open>route\<close>; both are the field \<open>res_route\<close> here.
\<close>

record executor =
  jx_jump_hosts :: string
  jx_target_host :: string
  jx_command :: "string option"
  jx_script :: "string option"
  jx_ssh_key :: "string option"
  jx_save_output :: bool
  jx_output_dir :: string
  jx_timestamp :: string
  jx_target_ip :: string
  jx_audit_dir :: string

definition jx_build_ssh_command :: "executor \<Rightarrow> argv \<Rightarrow> argv" where
  "jx_build_ssh_command self command_args =
     (let ssh_cmd = [Some ''ssh''];
          ssh_cmd = (if truthy (jx_ssh_key self) then ssh_cmd @ [Some ''-i'', jx_ssh_key self]
                     else ssh_cmd);
          ssh_cmd = ssh_cmd @ [Some ''-o'', Some ''StrictHostKeyChecking=accept-new'',
                               Some ''-o'', Some ''ConnectTimeout=10'',
                               Some ''-J'', Some (jx_jump_hosts self),
                               Some (jx_target_host self)]
      in ssh_cmd @ command_args)"

definition hostname_query :: string where
  "hostname_query = ''hostname -I | awk '' @ [CHR 0x27] @ ''{print $1}'' @ [CHR 0x27]"

text \<open>
  \<^verbatim>\<open>get_target_ip\<close> runs in the constructor, before \<^verbatim>\<open>self.result\<close> exists: only
  the list of calls changes. The command line is built from the attributes assigned
  before the call (key, chain and target).
\<close>

definition jx_get_target_ip ::
  "'a pylib \<Rightarrow> world \<Rightarrow> executor \<Rightarrow> state \<Rightarrow> pyerr + string \<times> state" where
  "jx_get_target_ip lib w self s =
     (case subprocess_run w (jx_build_ssh_command self [Some hostname_query]) (Some 10) s of
        (r, s1) \<Rightarrow>
          (case (case r of
                   Completed rc out err \<Rightarrow> if rc = 0 \<and> out \<noteq> [] then Some (str_strip lib out) else None
                 | Raised e \<Rightarrow> None) of
             Some ip \<Rightarrow> Inr (ip, s1)
           | None \<Rightarrow>
               (case index_last (split_on CHR ''@'' (jx_target_host self)) of
                  Inl e \<Rightarrow> Inl e
                | Inr addr \<Rightarrow>
                    (case index_first (split_on CHR '':'' addr) of
                       Inl e \<Rightarrow> Inl e
                     | Inr ip \<Rightarrow> Inr (ip, s1)))))"

definition jx_init ::
  "'a pylib \<Rightarrow> world \<Rightarrow> string \<Rightarrow> string \<Rightarrow> string option \<Rightarrow> string option \<Rightarrow> string option
     \<Rightarrow> bool \<Rightarrow> string \<Rightarrow> pyerr + executor \<times> state" where
  "jx_init lib w hops host cmd scr key save outdir =
     (let self0 = \<lparr>jx_jump_hosts = hops, jx_target_host = host, jx_command = cmd,
                   jx_script = scr, jx_ssh_key = key, jx_save_output = save,
                   jx_output_dir = outdir, jx_timestamp = now_strftime w,
                   jx_target_ip = [], jx_audit_dir = []\<rparr>;
          s0 = \<lparr>result =
                  \<lparr>operation = ''ssh_jump_exec'', res_timestamp = now_isoformat w,
                   res_target_host = host, res_target_ip = [], res_route = Some hops,
                   res_command = cmd, res_script = scr,
                   executed_by = user_at_node w, success = False, res_output = [],
                   errors = [], exit_code = None, remote_script_path = None\<rparr>,
                calls = [], files = []\<rparr>
      in case jx_get_target_ip lib w self0 s0 of
           Inl e \<Rightarrow> Inl e
         | Inr (ip, s1) \<Rightarrow>
             Inr (self0\<lparr>jx_target_ip := ip, jx_audit_dir := path_join outdir ip\<rparr>,
                  s1\<lparr>result := (result s1)\<lparr>res_target_ip := ip\<rparr>\<rparr>))"

definition echo_connection_successful :: string where
  "echo_connection_successful = ''echo '' @ [CHR 0x27] @ ''Connection successful'' @ [CHR 0x27]"

definition jx_test_connectivity :: "world \<Rightarrow> executor \<Rightarrow> state \<Rightarrow> bool \<times> state" where
  "jx_test_connectivity w self s =
     (case subprocess_run w (jx_build_ssh_command self [Some echo_connection_successful])
             (Some 10) s of
        (Completed rc out err, s1) \<Rightarrow>
          if rc = 0 then (True, s1) else (False, add_error (ConnectionTestFailedWith err) s1)
      | (Raised e, s1) \<Rightarrow> (False, add_error (ExcStr e) s1))"

definition jx_execute_command :: "world \<Rightarrow> executor \<Rightarrow> state \<Rightarrow> bool \<times> state" where
  "jx_execute_command w self s =
     (case subprocess_run w (jx_build_ssh_command self [jx_command self]) (Some 300) s of
        (Completed rc out err, s1) \<Rightarrow> (rc = 0, record_outcome rc out err s1)
      | (Raised e, s1) \<Rightarrow> (False, add_error (ExcStr e) s1))"

definition jx_scp_command :: "executor \<Rightarrow> string \<Rightarrow> string \<Rightarrow> argv" where
  "jx_scp_command self p remote_script =
     (let scp_cmd = [Some ''scp''];
          scp_cmd = (if truthy (jx_ssh_key self) then scp_cmd @ [Some ''-i'', jx_ssh_key self]
                     else scp_cmd)
      in scp_cmd @ [Some ''-o'', Some ''StrictHostKeyChecking=accept-new'',
                    Some ''-o'', Some ''ConnectTimeout=10'',
                    Some ''-J'', Some (jx_jump_hosts self),
                    Some p, Some (jx_target_host self @ '':'' @ remote_script)])"

definition set_remote_script_path :: "string \<Rightarrow> state \<Rightarrow> state" where
  "set_remote_script_path p s = s\<lparr>result := (result s)\<lparr>remote_script_path := Some p\<rparr>\<rparr>"

definition jx_execute_script ::
  "'a pylib \<Rightarrow> world \<Rightarrow> executor \<Rightarrow> bool \<Rightarrow> state \<Rightarrow> pyerr + bool \<times> state" where
  "jx_execute_script lib w self keep_script s =
     (case jx_script self of
        None \<Rightarrow> Inl TypeError
      | Some p \<Rightarrow>
          Inr (let remote_script = remote_script_of lib w p
               in case subprocess_run w (jx_scp_command self p remote_script) None s of
                    (Raised e, s1) \<Rightarrow> (False, add_error (ExcStr e) s1)
                  | (Completed rc out err, s1) \<Rightarrow>
                      if rc \<noteq> 0 then (False, add_error (UploadFailed err) s1)
                      else
                        (let chmod_cmd = jx_build_ssh_command self
                                           [Some (''chmod +x '' @ remote_script)]
                         in case subprocess_run w chmod_cmd None s1 of
                              (Raised e, s2) \<Rightarrow> (False, add_error (ExcStr e) s2)
                            | (Completed _ _ _, s2) \<Rightarrow>
                                (let exec_cmd = jx_build_ssh_command self [Some remote_script]
                                 in case subprocess_run w exec_cmd (Some 300) s2 of
                                      (Raised e, s3) \<Rightarrow> (False, add_error (ExcStr e) s3)
                                    | (Completed rc out err, s3) \<Rightarrow>
                                        (let s4 = set_remote_script_path remote_script
                                                    (record_outcome rc out err s3)
                                         in if \<not> keep_script then
                                              (let cleanup_cmd = jx_build_ssh_command self
                                                     [Some (''rm -f '' @ remote_script)]
                                               in case subprocess_run w cleanup_cmd None s4 of
                                                    (Raised e, s5) \<Rightarrow>
                                                      (False, add_error (ExcStr e) s5)
                                                  | (Completed _ _ _, s5) \<Rightarrow> (rc = 0, s5))
                                            else (rc = 0, s4))))))"

definition jx_script_output_file :: "'a pylib \<Rightarrow> executor \<Rightarrow> pyerr + string" where
  "jx_script_output_file lib self =
     (case jx_script self of
        None \<Rightarrow> Inl TypeError
      | Some p \<Rightarrow>
          Inr (path_join (jx_audit_dir self)
                 (''script-'' @ path_stem lib p @ ''-'' @ jx_timestamp self @ ''.json'')))"

definition jx_output_file :: "'a pylib \<Rightarrow> executor \<Rightarrow> pyerr + string" where
  "jx_output_file lib self =
     (case jx_command self of
        None \<Rightarrow> jx_script_output_file lib self
      | Some c \<Rightarrow>
          if c = [] then jx_script_output_file lib self
          else (case index_first (split_ws lib c) of
                  Inl e \<Rightarrow> Inl e
                | Inr tok \<Rightarrow>
                    Inr (path_join (jx_audit_dir self)
                           (map (\<lambda>x. if x = CHR ''/'' then CHR ''_'' else x) tok
                              @ ''-'' @ jx_timestamp self @ ''.json''))))"

definition jx_save_output_file :: "'a pylib \<Rightarrow> world \<Rightarrow> executor \<Rightarrow> state \<Rightarrow> state" where
  "jx_save_output_file lib w self s =
     (if \<not> jx_save_output self then s
      else if \<not> mkdir_ok w (jx_audit_dir self) then s
      else (case jx_output_file lib self of
              Inl e \<Rightarrow> s
            | Inr f \<Rightarrow>
                if open_ok w f then s\<lparr>files := files s @ [(f, result s)]\<rparr> else s))"

definition jx_run ::
  "'a pylib \<Rightarrow> world \<Rightarrow> executor \<Rightarrow> bool \<Rightarrow> state \<Rightarrow> pyerr + bool \<times> state" where
  "jx_run lib w self keep_script s =
     (case jx_test_connectivity w self s of
        (False, s1) \<Rightarrow> Inr (False, jx_save_output_file lib w self s1)
      | (True, s1) \<Rightarrow>
          if truthy (jx_command self) then
            (case jx_execute_command w self s1 of
               (ok, s2) \<Rightarrow> Inr (ok, jx_save_output_file lib w self s2))
          else if truthy (jx_script self) then
            (case jx_execute_script lib w self keep_script s1 of
               Inl e \<Rightarrow> Inl e
             | Inr (ok, s2) \<Rightarrow> Inr (ok, jx_save_output_file lib w self s2))
          else Inr (False, s1))"

section \<open>A stand-in for the address parsers, for concrete examples\<close>

text \<open>
  The theorems below hold for every library \<open>lib\<close>. To run the model on concrete
  route tables, \<open>ipv4_lib\<close> implements the fragment of \<^verbatim>\<open>ipaddress\<close> that the
  examples use: dotted-quad IPv4 addresses (decimal octets up to 255, no leading zeros)
  and blocks \<^verbatim>\<open>a.b.c.d/n\<close> with \<open>n \<le> 32\<close> and no host bits set; an address alone
  is the block of that one address. Paths and words are split at \<^verbatim>\<open>/\<close> and at blanks.
\<close>

definition digit_of :: "char \<Rightarrow> nat option" where
  "digit_of c =
     (let n = (of_char c :: nat) in if 48 \<le> n \<and> n \<le> 57 then Some (n - 48) else None)"

fun decimal :: "nat \<Rightarrow> string \<Rightarrow> nat option" where
  "decimal acc [] = Some acc"
| "decimal acc (c # cs) =
     (case digit_of c of None \<Rightarrow> None | Some d \<Rightarrow> decimal (10 * acc + d) cs)"

definition octet :: "string \<Rightarrow> nat option" where
  "octet s =
     (if s = [] \<or> 3 < length s \<or> (1 < length s \<and> take 1 s = ''0'') then None
      else (case decimal 0 s of
              None \<Rightarrow> None
            | Some n \<Rightarrow> if n \<le> 255 then Some n else None))"

definition ipv4_address :: "string \<Rightarrow> nat option" where
  "ipv4_address s =
     (case map octet (split_on CHR ''.'' s) of
        [Some a, Some b, Some c, Some d] \<Rightarrow> Some (((a * 256 + b) * 256 + c) * 256 + d)
      | _ \<Rightarrow> None)"

definition prefix_len :: "string \<Rightarrow> nat option" where
  "prefix_len s =
     (if s = [] \<or> 2 < length s then None
      else (case decimal 0 s of
              None \<Rightarrow> None
            | Some k \<Rightarrow> if k \<le> 32 then Some k else None))"

definition ipv4_network :: "string \<Rightarrow> (nat \<Rightarrow> bool) option" where
  "ipv4_network s =
     (case split_on CHR ''/'' s of
        [a] \<Rightarrow> (case ipv4_address a of None \<Rightarrow> None | Some n \<Rightarrow> Some (\<lambda>x. x = n))
      | [a, p] \<Rightarrow>
          (case ipv4_address a of
             None \<Rightarrow> None
           | Some n \<Rightarrow>
               (case prefix_len p of
                  None \<Rightarrow> None
                | Some k \<Rightarrow>
                    if n mod 2 ^ (32 - k) = 0
                    then Some (\<lambda>x. x div 2 ^ (32 - k) = n div 2 ^ (32 - k))
                    else None))
      | _ \<Rightarrow> None)"

definition ipv4_lib :: "nat pylib" where
  "ipv4_lib =
     \<lparr>ip_address = ipv4_address, ip_network = ipv4_network,
      path_name = (\<lambda>p. last (split_on CHR ''/'' p)),
      path_stem = (\<lambda>p. takeWhile (\<lambda>c. c \<noteq> CHR ''.'') (last (split_on CHR ''/'' p))),
      split_ws = (\<lambda>s. filter (\<lambda>t. t \<noteq> []) (split_on CHR '' '' s)),
      str_strip = (\<lambda>s. rev (dropWhile (\<lambda>c. c = CHR '' '') (rev (dropWhile (\<lambda>c. c = CHR '' '') s))))\<rparr>"

text \<open>
  A second stand-in that also reads IPv6 literals, as \<^verbatim>\<open>ipaddress.ip_address\<close> does:
  eight groups of one to four hexadecimal digits separated by colons, where one run of
  zero groups may be written \<^verbatim>\<open>::\<close>. (Embedded IPv4 suffixes, zone identifiers and
  IPv6 networks are not read.) An address is \<open>Inl\<close> for IPv4 and \<open>Inr\<close> for IPv6, and an
  IPv4 block contains no IPv6 address.
\<close>

definition hex_of :: "char \<Rightarrow> nat option" where
  "hex_of c =
     (let n = (of_char c :: nat)
      in if 48 \<le> n \<and> n \<le> 57 then Some (n - 48)
         else if 97 \<le> n \<and> n \<le> 102 then Some (n - 87)
         else if 65 \<le> n \<and> n \<le> 70 then Some (n - 55)
         else None)"

fun hex_value :: "nat \<Rightarrow> string \<Rightarrow> nat option" where
  "hex_value acc [] = Some acc"
| "hex_value acc (c # cs) =
     (case hex_of c of None \<Rightarrow> None | Some d \<Rightarrow> hex_value (16 * acc + d) cs)"

definition hextet :: "string \<Rightarrow> nat option" where
  "hextet s = (if s = [] \<or> 4 < length s then None else hex_value 0 s)"

fun all_some :: "'a option list \<Rightarrow> 'a list option" where
  "all_some [] = Some []"
| "all_some (None # xs) = None"
| "all_some (Some x # xs) = (case all_some xs of None \<Rightarrow> None | Some ys \<Rightarrow> Some (x # ys))"

definition hextets :: "string \<Rightarrow> nat list option" where
  "hextets s = (if s = [] then Some [] else all_some (map hextet (split_on CHR '':'' s)))"

text \<open>The text before and after the first \<^verbatim>\<open>::\<close>, if there is one.\<close>

fun split_double_colon :: "string \<Rightarrow> (string \<times> string) option" where
  "split_double_colon (x # y # r) =
     (if x = CHR '':'' \<and> y = CHR '':'' then Some ([], r)
      else (case split_double_colon (y # r) of
              None \<Rightarrow> None
            | Some (l, t) \<Rightarrow> Some (x # l, t)))"
| "split_double_colon s = None"

definition ipv6_address :: "string \<Rightarrow> nat option" where
  "ipv6_address s =
     (case split_double_colon s of
        None \<Rightarrow>
          (case hextets s of
             None \<Rightarrow> None
           | Some gs \<Rightarrow>
               if length gs = 8 then Some (foldl (\<lambda>v g. v * 65536 + g) 0 gs) else None)
      | Some (l, t) \<Rightarrow>
          (case hextets l of
             None \<Rightarrow> None
           | Some gl \<Rightarrow>
               (case hextets t of
                  None \<Rightarrow> None
                | Some gt \<Rightarrow>
                    if length gl + length gt \<le> 7
                    then Some (foldl (\<lambda>v g. v * 65536 + g) 0
                                 (gl @ replicate (8 - (length gl + length gt)) 0 @ gt))
                    else None)))"

definition dual_lib :: "(nat + nat) pylib" where
  "dual_lib =
     \<lparr>ip_address =
        (\<lambda>s. case ipv4_address s of
                Some a \<Rightarrow> Some (Inl a)
              | None \<Rightarrow> (case ipv6_address s of Some a \<Rightarrow> Some (Inr a) | None \<Rightarrow> None)),
      ip_network =
        (\<lambda>n. case ipv4_network n of
                None \<Rightarrow> None
              | Some block \<Rightarrow> Some (\<lambda>x. case x of Inl a \<Rightarrow> block a | Inr _ \<Rightarrow> False)),
      path_name = path_name ipv4_lib, path_stem = path_stem ipv4_lib,
      split_ws = split_ws ipv4_lib, str_strip = str_strip ipv4_lib\<rparr>"

definition mk_route :: "string \<Rightarrow> string \<Rightarrow> route" where
  "mk_route n v = \<lparr>network = JStr n, via = JStr v, description = Absent\<rparr>"

definition outcomes :: "outcome list \<Rightarrow> nat \<Rightarrow> outcome" where
  "outcomes xs n = (if n < length xs then xs ! n else Raised (OtherException ''no more calls''))"

definition demo_world :: "route list \<Rightarrow> outcome list \<Rightarrow> world" where
  "demo_world rs xs =
     \<lparr>read_routes = (\<lambda>_. Json (Some rs)),
      gethostbyname = (\<lambda>h. if h = ''localhost'' then Some ''127.0.0.1'' else None),
      subprocess = outcomes xs, getpid = 4242,
      now_strftime = ''20240101-120000'', now_isoformat = ''2024-01-01T12:00:00'',
      user_at_node = ''ops@admin'',
      mkdir_ok = (\<lambda>_. True), open_ok = (\<lambda>_. True)\<rparr>"

definition demo_routes :: "route list" where
  "demo_routes = [mk_route ''10.0.0.0/8'' ''jumpA'', mk_route ''default'' ''bastion'']"

definition demo_args :: "string option \<Rightarrow> string option \<Rightarrow> bool \<Rightarrow> bool \<Rightarrow> args" where
  "demo_args cmd scr keep nosave =
     \<lparr>arg_routes = ''routes.json'', arg_target = Some ''root@10.1.2.3'', arg_command = cmd,
      arg_script = scr, arg_key = None, arg_list = False, arg_upload = keep,
      arg_no_save = nosave, arg_output = ''/var/audit''\<rparr>"

text \<open>The router and the state that the constructor builds from \<open>demo_args\<close>.\<close>

definition demo_router :: "string option \<Rightarrow> string option \<Rightarrow> bool \<Rightarrow> router" where
  "demo_router cmd scr save =
     \<lparr>routes_file = ''routes.json'', target_host = ''root@10.1.2.3'', command = cmd,
      script = scr, ssh_key = None, save_output = save, output_dir = ''/var/audit'',
      timestamp = ''20240101-120000'', routes = demo_routes, target_ip = ''10.1.2.3'',
      jump_chain = Some ''jumpA'', audit_dir = ''/var/audit/10.1.2.3''\<rparr>"

definition demo_result :: "string option \<Rightarrow> string option \<Rightarrow> result" where
  "demo_result cmd scr =
     \<lparr>operation = ''ssh_router'', res_timestamp = ''2024-01-01T12:00:00'',
      res_target_host = ''root@10.1.2.3'', res_target_ip = ''10.1.2.3'',
      res_route = Some ''jumpA'', res_command = cmd, res_script = scr,
      executed_by = ''ops@admin'', success = False, res_output = [],
      errors = [], exit_code = None, remote_script_path = None\<rparr>"

definition demo_state :: "string option \<Rightarrow> string option \<Rightarrow> state" where
  "demo_state cmd scr = \<lparr>result = demo_result cmd scr, calls = [], files = []\<rparr>"

definition demo_executor :: "string option \<Rightarrow> string option \<Rightarrow> executor" where
  "demo_executor cmd scr =
     \<lparr>jx_jump_hosts = ''jumpA'', jx_target_host = ''root@10.1.2.3'', jx_command = cmd,
      jx_script = scr, jx_ssh_key = None, jx_save_output = True, jx_output_dir = ''/var/audit'',
      jx_timestamp = ''20240101-120000'', jx_target_ip = ''10.1.2.3'',
      jx_audit_dir = ''/var/audit/10.1.2.3''\<rparr>"

text \<open>
  The state in which the constructor of the executor leaves a run: it has made one call,
  the query for the address of the target.
\<close>

definition demo_jx_state :: "string option \<Rightarrow> string option \<Rightarrow> state" where
  "demo_jx_state cmd scr =
     \<lparr>result = (demo_result cmd scr)\<lparr>operation := ''ssh_jump_exec''\<rparr>,
      calls = [(jx_build_ssh_command (demo_executor cmd scr) [Some hostname_query], Some 10)],
      files = []\<rparr>"

section \<open>Notions of the specification\<close>

text \<open>
  A route is a CIDR match for an address when its selector is neither sentinel and the
  containment test of the program succeeds on it.
\<close>

definition cidr_match :: "'a pylib \<Rightarrow> string \<Rightarrow> route \<Rightarrow> bool" where
  "cidr_match lib ip r =
     (dict_get (network r) \<noteq> Some ''default'' \<and> dict_get (network r) \<noteq> Some ''direct''
      \<and> ip_in_network lib ip (dict_get (network r)))"

definition default_routes :: "route list \<Rightarrow> route list" where
  "default_routes rs = filter (\<lambda>r. dict_get (network r) = Some ''default'') rs"

text \<open>
  The selector of a route is a CIDR block that contains an address, said with the library
  alone: the selector is a string other than the two sentinels, the library parses the
  address and the selector, and the parsed block contains the parsed address.
\<close>

definition cidr_contains :: "'a pylib \<Rightarrow> string \<Rightarrow> route \<Rightarrow> bool" where
  "cidr_contains lib ip r =
     (case network r of
        JStr n \<Rightarrow>
          n \<noteq> ''default'' \<and> n \<noteq> ''direct''
          \<and> (case ip_address lib ip of
                None \<Rightarrow> False
              | Some a \<Rightarrow>
                  (case ip_network lib n of
                     None \<Rightarrow> False
                   | Some block \<Rightarrow> block a))
      | _ \<Rightarrow> False)"

text \<open>A library that refuses to parse the two sentinels as networks.\<close>

definition without_sentinels :: "'a pylib \<Rightarrow> 'a pylib" where
  "without_sentinels lib =
     lib\<lparr>ip_network := (\<lambda>n. if n = ''default'' \<or> n = ''direct'' then None else ip_network lib n)\<rparr>"

text \<open>A target \<^verbatim>\<open>[user@]host[:port]\<close>, and the address the resolver gives for a token.\<close>

definition target_spec :: "string option \<Rightarrow> string \<Rightarrow> string option \<Rightarrow> string" where
  "target_spec user host port =
     (case user of None \<Rightarrow> [] | Some u \<Rightarrow> u @ ''@'') @ host
       @ (case port of None \<Rightarrow> [] | Some p \<Rightarrow> '':'' @ p)"

definition resolve_token :: "'a pylib \<Rightarrow> world \<Rightarrow> string \<Rightarrow> string" where
  "resolve_token lib w tok =
     (if ip_address lib tok \<noteq> None then tok
      else (case gethostbyname w tok of Some ip \<Rightarrow> ip | None \<Rightarrow> tok))"

text \<open>
  The token of a target string: what stands after its last \<^verbatim>\<open>@\<close>, up to the first
  colon of that.
\<close>

definition host_token :: "string \<Rightarrow> string" where
  "host_token t =
     takeWhile (\<lambda>c. c \<noteq> CHR '':'') (rev (takeWhile (\<lambda>c. c \<noteq> CHR ''@'') (rev t)))"

text \<open>The two optional parts of a transport command.\<close>

definition identity_option :: "string option \<Rightarrow> argv" where
  "identity_option key = (if truthy key then [Some ''-i'', key] else [])"

definition relay_directive :: "string option \<Rightarrow> argv" where
  "relay_directive chain = (if chain = Some ''direct'' then [] else [Some ''-J'', chain])"

text \<open>
  A run that starts in state \<open>s\<close> makes its calls of \<^verbatim>\<open>subprocess.run\<close> at the
  positions \<open>length (calls s)\<close>, \<open>length (calls s) + 1\<close>, ... of the world: the probe
  first, then the command, or the copy, \<^verbatim>\<open>chmod\<close>, the script and the cleanup.
  The preflight fails when the probe cannot be started (a chain that is \<^verbatim>\<open>None\<close>),
  raises (a timeout or another exception) or returns a nonzero code.
\<close>

definition preflight_fails :: "world \<Rightarrow> router \<Rightarrow> state \<Rightarrow> bool" where
  "preflight_fails w self s =
     (jump_chain self = None
      \<or> (case subprocess w (length (calls s)) of
            Completed rc _ _ \<Rightarrow> rc \<noteq> 0
          | Raised _ \<Rightarrow> True))"

text \<open>The error that a failed preflight appends to \<^verbatim>\<open>result['errors']\<close>.\<close>

definition preflight_error :: "world \<Rightarrow> router \<Rightarrow> state \<Rightarrow> errmsg" where
  "preflight_error w self s =
     (if jump_chain self = None then ExcStr ArgTypeError
      else (case subprocess w (length (calls s)) of
              Completed _ _ _ \<Rightarrow> ConnectionTestFailed
            | Raised e \<Rightarrow> ExcStr e))"

text \<open>
  An entry of the list of calls: the transport command for one remote command, with
  \<^verbatim>\<open>use_jump\<close> as the callers compute it, and the timeout.
\<close>

definition ssh_call :: "router \<Rightarrow> string option \<Rightarrow> nat option \<Rightarrow> argv \<times> nat option" where
  "ssh_call self remote_cmd tmo =
     (build_ssh_command self [remote_cmd] (jump_chain self \<noteq> Some ''direct''), tmo)"

text \<open>The \<open>n\<close>-th call returns (whatever its code), or returns the code \<open>rc\<close>.\<close>

definition returns :: "world \<Rightarrow> nat \<Rightarrow> bool" where
  "returns w n = (case subprocess w n of Completed _ _ _ \<Rightarrow> True | Raised _ \<Rightarrow> False)"

definition returns_code :: "world \<Rightarrow> nat \<Rightarrow> int \<Rightarrow> bool" where
  "returns_code w n rc = (case subprocess w n of Completed c _ _ \<Rightarrow> c = rc | Raised _ \<Rightarrow> False)"

definition script_payload :: "router \<Rightarrow> bool" where
  "script_payload self = (\<not> truthy (command self) \<and> truthy (script self))"



text \<open>Where \<^verbatim>\<open>save_output_file\<close> writes, if it writes at all.\<close>

definition audit_path :: "'a pylib \<Rightarrow> world \<Rightarrow> router \<Rightarrow> string option" where
  "audit_path lib w self =
     (if save_output self \<and> mkdir_ok w (audit_dir self) then
        (case output_file lib self of
           Inl e \<Rightarrow> None
         | Inr f \<Rightarrow> if open_ok w f then Some f else None)
      else None)"

section \<open>Evaluation of the examples\<close>

lemmas ipv4_defs =
  ip_in_network_def ipv4_lib_def ipv4_network_def prefix_len_def ipv4_address_def
  octet_def digit_of_def

lemma demo_init:
  "init ipv4_lib (demo_world demo_routes xs) ''routes.json'' ''root@10.1.2.3'' cmd scr None
     save ''/var/audit'' = Inr (demo_router cmd scr save, demo_state cmd scr)"
  by (simp add: init_def load_routes_def demo_world_def demo_routes_def extract_ip_def
      index_last_def index_first_def find_route_def mk_route_def ipv4_defs path_join_def
      demo_router_def demo_state_def demo_result_def)

section \<open>Splitting strings\<close>

lemma split_on_nonempty: "split_on c s \<noteq> []"
  by (induction s) (auto split: list.splits)

lemma length_split_on: "length (split_on c s) = Suc (length (filter (\<lambda>x. x = c) s))"
  by (induction s) (auto split: list.splits)

lemma split_on_no_sep: "c \<notin> set s \<Longrightarrow> split_on c s = [s]"
  by (induction s) auto

lemma split_on_append_sep: "c \<notin> set h \<Longrightarrow> split_on c (h @ c # t) = h # split_on c t"
  by (induction h) (auto split: list.splits)

lemma last_split_on_append_sep: "last (split_on c (u @ c # t)) = last (split_on c t)"
proof (induction u)
  case Nil
  show ?case by (simp add: split_on_nonempty)
next
  case (Cons x u)
  show ?case
  proof (cases "x = c")
    case True
    then show ?thesis using Cons by (simp add: split_on_nonempty)
  next
    case False
    obtain w ws where eq: "split_on c (u @ c # t) = w # ws"
      using split_on_nonempty [of c "u @ c # t"] by (cases "split_on c (u @ c # t)") auto
    have "ws \<noteq> []"
    proof
      assume "ws = []"
      then have "length (split_on c (u @ c # t)) = 1" using eq by simp
      then show False by (simp add: length_split_on)
    qed
    then show ?thesis using False Cons eq by simp
  qed
qed

lemma hd_split_on: "hd (split_on c s) = takeWhile (\<lambda>x. x \<noteq> c) s"
  using split_on_nonempty [of c] by (induction s) (auto split: list.splits)

lemma last_split_on: "last (split_on c s) = rev (takeWhile (\<lambda>x. x \<noteq> c) (rev s))"
proof (cases "c \<in> set s")
  case False
  then have eq: "takeWhile (\<lambda>x. x \<noteq> c) (rev s) = rev s"
    by auto
  show ?thesis by (subst eq) (simp add: split_on_no_sep [OF False])
next
  case True
  then obtain u t where s: "s = u @ c # t" and t: "c \<notin> set t"
    using split_list_last [of c s] by blast
  have "takeWhile (\<lambda>x. x \<noteq> c) (rev t @ c # rev u)
          = rev t @ takeWhile (\<lambda>x. x \<noteq> c) (c # rev u)"
    by (rule takeWhile_append2) (use t in auto)
  then have "takeWhile (\<lambda>x. x \<noteq> c) (rev t @ c # rev u) = rev t"
    by simp
  then show ?thesis
    using t by (simp add: s last_split_on_append_sep split_on_no_sep)
qed

section \<open>Route resolution: first match, fallback, failure\<close>

text \<open>
  Routes that are no CIDR match only move the fallback: after them the loop stands where
  it started, with the \<^verbatim>\<open>via\<close> of the last fallback entry among them.
\<close>

lemma find_route_loop_no_match:
  "\<forall>q \<in> set pre. \<not> cidr_match lib ip q \<Longrightarrow>
   find_route_loop lib ip d (pre @ rest) =
   find_route_loop lib ip
     (if default_routes pre = [] then d else dict_get (via (last (default_routes pre)))) rest"
proof (induction pre arbitrary: d)
  case Nil
  show ?case by (simp add: default_routes_def)
next
  case (Cons r pre)
  then show ?case
    by (auto simp: default_routes_def cidr_match_def Let_def)
qed

lemma ip_in_network_without_sentinels:
  "net \<noteq> Some ''default'' \<Longrightarrow> net \<noteq> Some ''direct'' \<Longrightarrow>
   ip_in_network (without_sentinels lib) ip net = ip_in_network lib ip net"
  by (cases net) (auto simp: ip_in_network_def without_sentinels_def split: option.splits)

lemma find_route_loop_without_sentinels:
  "find_route_loop (without_sentinels lib) ip d rs = find_route_loop lib ip d rs"
proof (induction rs arbitrary: d)
  case Nil
  show ?case by simp
next
  case (Cons r rs)
  show ?case
  proof (cases "dict_get (network r) = Some ''default'' \<or> dict_get (network r) = Some ''direct''")
    case True
    then show ?thesis using Cons by (auto simp: Let_def)
  next
    case False
    then have "ip_in_network (without_sentinels lib) ip (dict_get (network r))
               = ip_in_network lib ip (dict_get (network r))"
      by (simp add: ip_in_network_without_sentinels)
    then show ?thesis using False Cons by (simp add: Let_def)
  qed
qed

text \<open>
  The test of the program, \<open>cidr_match\<close>, is the containment of the library.
\<close>

lemma cidr_match_iff: "cidr_match lib ip r = cidr_contains lib ip r"
  by (cases "network r")
     (auto simp: cidr_match_def cidr_contains_def ip_in_network_def split: option.splits)

lemma cidr_contains_iff:
  "cidr_contains lib ip r \<longleftrightarrow>
     (\<exists>n a block. network r = JStr n \<and> n \<noteq> ''default'' \<and> n \<noteq> ''direct''
        \<and> ip_address lib ip = Some a \<and> ip_network lib n = Some block \<and> block a)"
  by (cases "network r") (auto simp: cidr_contains_def split: option.splits)

text \<open>
  C1. Route resolution returns the \<^verbatim>\<open>via\<close> of the first route, in declared order,
  whose selector is a CIDR block containing the target address, where containment is
  what the library says (\<open>cidr_contains\<close>): the library parses the address and the
  selector, and the block contains the address. Routes before it whose selector is a
  sentinel, is no block or is a block without the address do not matter, and neither do
  the routes after it, whether they contain the address or not. The library is never
  asked to parse a sentinel: the result is the same with a library that refuses both.
\<close>

theorem find_route_first_match:
  assumes "rs = pre @ r # post"
    and "cidr_contains lib ip r"
    and "\<forall>q \<in> set pre. \<not> cidr_contains lib ip q"
  shows "find_route lib ip rs = Inr (dict_get (via r))
         \<and> find_route (without_sentinels lib) ip rs = find_route lib ip rs"
proof -
  have skip: "\<forall>q \<in> set pre. \<not> cidr_match lib ip q"
    using assms(3) by (simp add: cidr_match_iff)
  have "cidr_match lib ip r"
    using assms(2) by (simp add: cidr_match_iff)
  then have "find_route lib ip rs = Inr (dict_get (via r))"
    unfolding find_route_def assms(1)
    by (simp add: find_route_loop_no_match [OF skip] cidr_match_def Let_def)
  then show ?thesis
    by (simp add: find_route_def find_route_loop_without_sentinels)
qed

theorem find_route_first_match_witness:
  "\<not> cidr_contains ipv4_lib ''10.1.2.3'' (mk_route ''direct'' ''direct'')
   \<and> \<not> cidr_contains ipv4_lib ''10.1.2.3'' (mk_route ''192.168.0.0/16'' ''jumpC'')
   \<and> cidr_contains ipv4_lib ''10.1.2.3'' (mk_route ''10.0.0.0/8'' ''jumpA'')
   \<and> cidr_contains ipv4_lib ''10.1.2.3'' (mk_route ''10.1.0.0/16'' ''jumpB'')
   \<and> find_route ipv4_lib ''10.1.2.3''
        [mk_route ''direct'' ''direct'', mk_route ''192.168.0.0/16'' ''jumpC'',
         mk_route ''10.0.0.0/8'' ''jumpA'', mk_route ''10.1.0.0/16'' ''jumpB'',
         mk_route ''default'' ''bastion'']
      = Inr (Some ''jumpA'')"
proof -
  note ev = cidr_contains_def mk_route_def ipv4_lib_def ipv4_network_def prefix_len_def
    ipv4_address_def octet_def digit_of_def
  have skip: "\<forall>q \<in> set [mk_route ''direct'' ''direct'', mk_route ''192.168.0.0/16'' ''jumpC''].
                \<not> cidr_contains ipv4_lib ''10.1.2.3'' q"
    by (simp add: ev)
  have first: "cidr_contains ipv4_lib ''10.1.2.3'' (mk_route ''10.0.0.0/8'' ''jumpA'')"
    by (simp add: ev)
  have later: "cidr_contains ipv4_lib ''10.1.2.3'' (mk_route ''10.1.0.0/16'' ''jumpB'')"
    by (simp add: ev)
  have "find_route ipv4_lib ''10.1.2.3''
          ([mk_route ''direct'' ''direct'', mk_route ''192.168.0.0/16'' ''jumpC'']
             @ mk_route ''10.0.0.0/8'' ''jumpA''
             # [mk_route ''10.1.0.0/16'' ''jumpB'', mk_route ''default'' ''bastion''])
        = Inr (dict_get (via (mk_route ''10.0.0.0/8'' ''jumpA'')))"
    using find_route_first_match [OF refl first skip] by simp
  then show ?thesis using skip first later by (simp add: mk_route_def)
qed

lemma find_route_no_match:
  assumes "\<forall>q \<in> set rs. \<not> cidr_match lib ip q"
  shows "find_route lib ip rs =
     (if default_routes rs \<noteq> [] \<and> truthy (dict_get (via (last (default_routes rs))))
      then Inr (dict_get (via (last (default_routes rs))))
      else Inl (NoRouteFound ip))"
  using find_route_loop_no_match [OF assms, of None "[]"]
  by (simp add: find_route_def)

lemma main_route_not_found:
  assumes "\<not> arg_list a" "arg_target a = Some t" "t \<noteq> []"
    and "truthy (arg_command a) \<or> truthy (arg_script a)"
    and "read_routes w (arg_routes a) = Json (Some rs)"
    and "extract_ip lib w t = Inr ip"
    and "find_route lib ip rs = Inl (NoRouteFound ip)"
  shows "main lib w a =
     \<lparr>status = 1, printed = [FatalMsg (NoRouteFound ip)], invoked = [], written = []\<rparr>"
  using assms by (auto simp: main_def init_def load_routes_def)

lemma extract_ip_target_spec:
  assumes "CHR ''@'' \<notin> set host" "CHR '':'' \<notin> set host"
    and "\<forall>p. port = Some p \<longrightarrow> CHR ''@'' \<notin> set p"
  shows "extract_ip lib w (target_spec user host port) = Inr (resolve_token lib w host)"
proof -
  let ?rest = "host @ (case port of None \<Rightarrow> [] | Some p \<Rightarrow> '':'' @ p)"
  have noat: "CHR ''@'' \<notin> set ?rest" using assms by (auto split: option.splits)
  have "last (split_on CHR ''@'' (target_spec user host port)) = ?rest"
    using noat
    by (cases user) (simp_all add: target_spec_def last_split_on_append_sep split_on_no_sep)
  moreover have "index_first (split_on CHR '':'' ?rest) = Inr host"
    using assms(2)
    by (cases port) (simp_all add: index_first_def split_on_no_sep split_on_append_sep)
  ultimately show ?thesis
    by (simp add: extract_ip_def index_last_def split_on_nonempty resolve_token_def split: option.splits)
qed

lemma extract_ip_host_token: "extract_ip lib w t = Inr (resolve_token lib w (host_token t))"
proof -
  have "index_last (split_on CHR ''@'' t)
          = Inr (rev (takeWhile (\<lambda>c. c \<noteq> CHR ''@'') (rev t)))"
    by (simp add: index_last_def split_on_nonempty last_split_on)
  moreover have "index_first (split_on CHR '':'' a) = Inr (takeWhile (\<lambda>c. c \<noteq> CHR '':'') a)" for a
    using split_on_nonempty [of "CHR '':''" a] hd_split_on [of "CHR '':''" a]
    by (cases "split_on CHR '':'' a") (auto simp: index_first_def)
  ultimately show ?thesis
    by (simp add: extract_ip_def host_token_def resolve_token_def split: option.splits)
qed

text \<open>
  C2, as the program has it. When no route is a CIDR match for the address, route
  resolution returns the \<^verbatim>\<open>via\<close> of the last fallback entry if that value is a
  non-empty string (the program tests \<^verbatim>\<open>if default_route:\<close>); otherwise, that is with
  no fallback entry or with a last one whose \<^verbatim>\<open>via\<close> is empty, \<^verbatim>\<open>null\<close> or absent,
  it fails with "no route found", and the process ends with status 1, without having
  started a command or written a file.
\<close>

theorem route_fallback_or_failure:
  assumes "\<forall>q \<in> set rs. \<not> cidr_match lib ip q"
    and "\<not> arg_list a" "arg_target a = Some t" "t \<noteq> []"
    and "truthy (arg_command a) \<or> truthy (arg_script a)"
    and "read_routes w (arg_routes a) = Json (Some rs)"
    and "extract_ip lib w t = Inr ip"
  shows "if default_routes rs \<noteq> [] \<and> truthy (dict_get (via (last (default_routes rs))))
         then find_route lib ip rs = Inr (dict_get (via (last (default_routes rs))))
         else find_route lib ip rs = Inl (NoRouteFound ip)
              \<and> main lib w a =
                  \<lparr>status = 1, printed = [FatalMsg (NoRouteFound ip)], invoked = [], written = []\<rparr>"
proof (cases "default_routes rs \<noteq> [] \<and> truthy (dict_get (via (last (default_routes rs))))")
  case True
  then show ?thesis using find_route_no_match [OF assms(1)] by simp
next
  case False
  then have "find_route lib ip rs = Inl (NoRouteFound ip)"
    using find_route_no_match [OF assms(1)] by auto
  then show ?thesis using False main_route_not_found [OF assms(2-7)] by auto
qed

theorem route_fallback_or_failure_witness:
  "find_route ipv4_lib ''192.168.1.1'' demo_routes = Inr (Some ''bastion'')
   \<and> main ipv4_lib
       (demo_world [mk_route ''10.0.0.0/8'' ''jumpA'', mk_route ''direct'' ''direct''] [])
       ((demo_args (Some ''uptime'') None False False)\<lparr>arg_target := Some ''root@192.168.1.1''\<rparr>)
     = \<lparr>status = 1, printed = [FatalMsg (NoRouteFound ''192.168.1.1'')], invoked = [], written = []\<rparr>"
proof -
  let ?a = "(demo_args (Some ''uptime'') None False False)\<lparr>arg_target := Some ''root@192.168.1.1''\<rparr>"
  let ?rs = "[mk_route ''10.0.0.0/8'' ''jumpA'', mk_route ''direct'' ''direct'']"
  have ip: "extract_ip ipv4_lib (demo_world rs []) ''root@192.168.1.1'' = Inr ''192.168.1.1''" for rs
    by (simp add: extract_ip_def index_last_def index_first_def ipv4_defs)
  have n1: "\<forall>q \<in> set demo_routes. \<not> cidr_match ipv4_lib ''192.168.1.1'' q"
    by (simp add: demo_routes_def cidr_match_def mk_route_def ipv4_defs)
  have n2: "\<forall>q \<in> set ?rs. \<not> cidr_match ipv4_lib ''192.168.1.1'' q"
    by (simp add: cidr_match_def mk_route_def ipv4_defs)
  have a: "\<not> arg_list ?a" "arg_target ?a = Some ''root@192.168.1.1''" "''root@192.168.1.1'' \<noteq> []"
    "truthy (arg_command ?a) \<or> truthy (arg_script ?a)"
    by (simp_all add: demo_args_def)
  have r: "read_routes (demo_world rs []) (arg_routes ?a) = Json (Some rs)" for rs
    by (simp add: demo_world_def)
  show ?thesis
    using route_fallback_or_failure [OF n1 a r ip] route_fallback_or_failure [OF n2 a r ip]
    by (simp add: default_routes_def demo_routes_def mk_route_def)
qed

text \<open>
  C2 as stated fails on a table with a fallback entry whose \<^verbatim>\<open>via\<close> is the empty
  string: no CIDR entry contains the address, a fallback entry exists, and the resolution
  fails instead of returning that entry's \<^verbatim>\<open>via\<close>.
\<close>

theorem route_default_counterexample:
  "default_routes [mk_route ''10.0.0.0/8'' ''jumpA'', mk_route ''default'' '''']
     = [mk_route ''default'' '''']
   \<and> \<not> cidr_match ipv4_lib ''192.168.1.1'' (mk_route ''10.0.0.0/8'' ''jumpA'')
   \<and> \<not> cidr_match ipv4_lib ''192.168.1.1'' (mk_route ''default'' '''')
   \<and> find_route ipv4_lib ''192.168.1.1'' [mk_route ''10.0.0.0/8'' ''jumpA'', mk_route ''default'' '''']
       = Inl (NoRouteFound ''192.168.1.1'')"
  by (simp add: default_routes_def cidr_match_def find_route_def mk_route_def ipv4_defs)

section \<open>Address resolution\<close>

text \<open>
  C3, as the program has it. The token is what stands after the last \<^verbatim>\<open>@\<close> of the
  target, up to the first colon of that. For a target \<^verbatim>\<open>[user@]host[:port]\<close> whose host
  has no colon this is the host: the program strips the user and the port, returns the
  host itself when the library parses it as an address, otherwise what the resolver gives
  for it, and the host itself when the resolver fails. On every string the program
  returns, with the resolution of the token.
\<close>

theorem extract_ip_resolves:
  assumes "CHR ''@'' \<notin> set host" "CHR '':'' \<notin> set host"
    and "\<forall>p. port = Some p \<longrightarrow> CHR ''@'' \<notin> set p"
  shows "extract_ip lib w (target_spec user host port) = Inr (resolve_token lib w host)
         \<and> (\<forall>t. extract_ip lib w t = Inr (resolve_token lib w (host_token t)))"
  using extract_ip_target_spec [OF assms] extract_ip_host_token by blast

theorem extract_ip_resolves_witness:
  "extract_ip ipv4_lib (demo_world [] []) ''root@10.1.2.3:22'' = Inr ''10.1.2.3''
   \<and> extract_ip ipv4_lib (demo_world [] []) ''dummy@localhost'' = Inr ''127.0.0.1''
   \<and> extract_ip ipv4_lib (demo_world [] []) ''db1.corp:2222'' = Inr ''db1.corp''"
proof -
  have h1: "CHR ''@'' \<notin> set ''10.1.2.3''" "CHR '':'' \<notin> set ''10.1.2.3''"
    "\<forall>p. Some ''22'' = Some p \<longrightarrow> CHR ''@'' \<notin> set p" by simp_all
  have h2: "CHR ''@'' \<notin> set ''localhost''" "CHR '':'' \<notin> set ''localhost''"
    "\<forall>p. (None :: string option) = Some p \<longrightarrow> CHR ''@'' \<notin> set p" by simp_all
  have h3: "CHR ''@'' \<notin> set ''db1.corp''" "CHR '':'' \<notin> set ''db1.corp''"
    "\<forall>p. Some ''2222'' = Some p \<longrightarrow> CHR ''@'' \<notin> set p" by simp_all
  show ?thesis
    using extract_ip_resolves [OF h1, of ipv4_lib "demo_world [] []" "Some ''root''", THEN conjunct1]
      extract_ip_resolves [OF h2, of ipv4_lib "demo_world [] []" "Some ''dummy''", THEN conjunct1]
      extract_ip_resolves [OF h3, of ipv4_lib "demo_world [] []" None, THEN conjunct1]
    by (simp add: target_spec_def resolve_token_def demo_world_def ipv4_lib_def
        ipv4_address_def octet_def digit_of_def)
qed

text \<open>
  C3 as stated fails on a target whose host is an IPv6 literal: the library parses
  \<^verbatim>\<open>2001:db8::1\<close> as an address, but the program cuts it at its first colon and
  resolves \<^verbatim>\<open>2001\<close> instead of returning the literal.
\<close>

theorem extract_ip_ipv6_counterexample:
  "ip_address dual_lib ''2001:db8::1'' \<noteq> None
   \<and> extract_ip dual_lib (demo_world [] []) ''root@2001:db8::1'' = Inr ''2001''
   \<and> extract_ip dual_lib
        ((demo_world [] [])
           \<lparr>gethostbyname := (\<lambda>h. if h = ''2001'' then Some ''0.0.7.209'' else None)\<rparr>)
        ''root@2001:db8::1'' = Inr ''0.0.7.209''"
  by (simp add: extract_ip_def index_last_def index_first_def dual_lib_def demo_world_def
      ipv4_address_def octet_def digit_of_def ipv6_address_def hextets_def hextet_def hex_of_def)

section \<open>The transport command\<close>

text \<open>
  C4. With \<^verbatim>\<open>use_jump\<close> as every caller passes it (the default True, or the test
  \<^verbatim>\<open>jump_chain != 'direct'\<close>), the command is \<^verbatim>\<open>ssh\<close>, the identity option, the two
  fixed options \<^verbatim>\<open>StrictHostKeyChecking=accept-new\<close> and \<^verbatim>\<open>ConnectTimeout=10\<close>, the
  relay directive, the target and the remote command. The relay directive is
  \<^verbatim>\<open>-J\<close> with the chain as resolved, and is left out exactly for the chain
  \<^verbatim>\<open>direct\<close>; the identity option is \<^verbatim>\<open>-i\<close> with the key, and is left out exactly
  when no key is configured.
\<close>

theorem build_ssh_command_shape:
  assumes "jump_chain self \<noteq> Some ''direct'' \<Longrightarrow> use_jump"
  shows "build_ssh_command self command_args use_jump =
           [Some ''ssh''] @ identity_option (ssh_key self)
           @ [Some ''-o'', Some ''StrictHostKeyChecking=accept-new'', Some ''-o'', Some ''ConnectTimeout=10'']
           @ relay_directive (jump_chain self)
           @ [Some (target_host self)] @ command_args
         \<and> (relay_directive (jump_chain self) = []) = (jump_chain self = Some ''direct'')
         \<and> (identity_option (ssh_key self) = []) = (\<not> truthy (ssh_key self))"
  using assms
  by (auto simp: build_ssh_command_def identity_option_def relay_directive_def Let_def)

theorem build_ssh_command_shape_witness:
  "build_ssh_command (demo_router (Some ''uptime'') None True) [Some ''uptime''] True
     = [Some ''ssh'', Some ''-o'', Some ''StrictHostKeyChecking=accept-new'',
        Some ''-o'', Some ''ConnectTimeout=10'', Some ''-J'', Some ''jumpA'',
        Some ''root@10.1.2.3'', Some ''uptime'']
   \<and> build_ssh_command
         ((demo_router (Some ''uptime'') None True)
            \<lparr>jump_chain := Some ''direct'', ssh_key := Some ''/home/ops/.ssh/id_ed25519''\<rparr>)
         [Some ''uptime''] False
     = [Some ''ssh'', Some ''-i'', Some ''/home/ops/.ssh/id_ed25519'',
        Some ''-o'', Some ''StrictHostKeyChecking=accept-new'',
        Some ''-o'', Some ''ConnectTimeout=10'', Some ''root@10.1.2.3'', Some ''uptime'']"
proof -
  let ?r = "demo_router (Some ''uptime'') None True"
  let ?d = "?r\<lparr>jump_chain := Some ''direct'', ssh_key := Some ''/home/ops/.ssh/id_ed25519''\<rparr>"
  have h1: "jump_chain ?r \<noteq> Some ''direct'' \<Longrightarrow> True" by simp
  have h2: "jump_chain ?d \<noteq> Some ''direct'' \<Longrightarrow> False" by simp
  show ?thesis
    using build_ssh_command_shape [of ?r True "[Some ''uptime'']", OF h1]
      build_ssh_command_shape [of ?d False "[Some ''uptime'']", OF h2]
    by (simp add: demo_router_def identity_option_def relay_directive_def)
qed

section \<open>Runs: the calls made and the result recorded\<close>

text \<open>
  The lemmas of this section replace each \<^verbatim>\<open>subprocess.run\<close> of a run by the outcome the
  world has at its position, so that a run is a case distinction over those outcomes.
\<close>

lemma None_in_build_ssh_command:
  "None \<in> set (build_ssh_command self cargs uj) \<longleftrightarrow> None \<in> set cargs \<or> (uj \<and> jump_chain self = None)"
  by (cases "ssh_key self") (auto simp: build_ssh_command_def Let_def)

lemma None_in_ssh_call:
  "None \<in> set (fst (ssh_call self c t)) \<longleftrightarrow> c = None \<or> jump_chain self = None"
  by (auto simp: ssh_call_def None_in_build_ssh_command)

lemma None_in_scp_command: "None \<notin> set (scp_command self p r)"
  by (cases "ssh_key self") (auto simp: scp_command_def Let_def)

lemma test_connectivity_eq:
  "test_connectivity w self s =
     (let s1 = s\<lparr>calls := calls s @ [ssh_call self (Some echo_ok) (Some 10)]\<rparr>
      in if preflight_fails w self s then (False, add_error (preflight_error w self s) s1)
         else (True, s1))"
  by (auto simp: test_connectivity_def subprocess_run_def ssh_call_def Let_def
      preflight_fails_def preflight_error_def None_in_build_ssh_command
      split: outcome.splits)

lemma execute_command_eq:
  assumes "jump_chain self \<noteq> None" "command self \<noteq> None"
  shows "execute_command w self s =
     (let s1 = s\<lparr>calls := calls s @ [ssh_call self (command self) (Some 300)]\<rparr>
      in case subprocess w (length (calls s)) of
           Completed rc out err \<Rightarrow> (rc = 0, record_outcome rc out err s1)
         | Raised e \<Rightarrow> (False, add_error (ExcStr e) s1))"
  using assms
  by (auto simp: execute_command_def subprocess_run_def ssh_call_def Let_def
      None_in_build_ssh_command split: outcome.splits)


lemma subprocess_run_plain:
  "None \<notin> set cmd \<Longrightarrow>
   subprocess_run w cmd tmo s = (subprocess w (length (calls s)), s\<lparr>calls := calls s @ [(cmd, tmo)]\<rparr>)"
  by (simp add: subprocess_run_def)

lemma subprocess_run_ssh_call:
  "jump_chain self \<noteq> None \<Longrightarrow>
   subprocess_run w (build_ssh_command self [Some c] (jump_chain self \<noteq> Some ''direct'')) tmo s
     = (subprocess w (length (calls s)), s\<lparr>calls := calls s @ [ssh_call self (Some c) tmo]\<rparr>)"
  by (auto simp: subprocess_run_def None_in_build_ssh_command ssh_call_def)

lemma add_error_calls [simp]: "calls (add_error e s) = calls s"
  by (simp add: add_error_def)

lemma record_outcome_calls [simp]: "calls (record_outcome rc out err s) = calls s"
  by (simp add: record_outcome_def)

lemma execute_script_eq:
  assumes "jump_chain self \<noteq> None" "script self = Some p"
  shows "execute_script lib w self keep s =
     Inr (let n = length (calls s);
              remote = remote_script_of lib w p;
              c1 = (scp_command self p remote, None);
              c2 = ssh_call self (Some (''chmod +x '' @ remote)) None;
              c3 = ssh_call self (Some remote) (Some 300);
              c4 = ssh_call self (Some (''rm -f '' @ remote)) None
          in case subprocess w n of
               Raised e \<Rightarrow> (False, add_error (ExcStr e) (s\<lparr>calls := calls s @ [c1]\<rparr>))
             | Completed rc1 _ _ \<Rightarrow>
                 if rc1 \<noteq> 0 then (False, s\<lparr>calls := calls s @ [c1]\<rparr>)
                 else
                   (case subprocess w (n + 1) of
                      Raised e \<Rightarrow> (False, add_error (ExcStr e) (s\<lparr>calls := calls s @ [c1, c2]\<rparr>))
                    | Completed _ _ _ \<Rightarrow>
                        (case subprocess w (n + 2) of
                           Raised e \<Rightarrow>
                             (False, add_error (ExcStr e) (s\<lparr>calls := calls s @ [c1, c2, c3]\<rparr>))
                         | Completed rc out err \<Rightarrow>
                             if keep then
                               (rc = 0, record_outcome rc out err (s\<lparr>calls := calls s @ [c1, c2, c3]\<rparr>))
                             else
                               (case subprocess w (n + 3) of
                                  Raised e \<Rightarrow>
                                    (False, add_error (ExcStr e)
                                       (record_outcome rc out err
                                          (s\<lparr>calls := calls s @ [c1, c2, c3, c4]\<rparr>)))
                                | Completed _ _ _ \<Rightarrow>
                                    (rc = 0, record_outcome rc out err
                                       (s\<lparr>calls := calls s @ [c1, c2, c3, c4]\<rparr>))))))"
  using assms
  by (auto simp: execute_script_def Let_def subprocess_run_plain None_in_scp_command
      subprocess_run_ssh_call record_outcome_def add_error_def
      numeral_2_eq_2 numeral_3_eq_3
      split: outcome.splits)


lemma save_output_file_result [simp]: "result (save_output_file lib w self s) = result s"
  by (simp add: save_output_file_def split: sum.splits)

lemma save_output_file_calls [simp]: "calls (save_output_file lib w self s) = calls s"
  by (simp add: save_output_file_def split: sum.splits)

lemma save_output_file_files:
  "files (save_output_file lib w self s) =
     files s @ (case audit_path lib w self of None \<Rightarrow> [] | Some f \<Rightarrow> [(f, result s)])"
  by (simp add: save_output_file_def audit_path_def split: sum.splits)

lemma run_eq:
  "run lib w self keep s =
     (let s1 = s\<lparr>calls := calls s @ [ssh_call self (Some echo_ok) (Some 10)]\<rparr>
      in if preflight_fails w self s then
           Inr (False, save_output_file lib w self (add_error (preflight_error w self s) s1))
         else if truthy (command self) then
           (case execute_command w self s1 of
              (ok, s2) \<Rightarrow> Inr (ok, save_output_file lib w self s2))
         else if truthy (script self) then
           (case execute_script lib w self keep s1 of
              Inl e \<Rightarrow> Inl e
            | Inr (ok, s2) \<Rightarrow> Inr (ok, save_output_file lib w self s2))
         else Inr (False, s1))"
  by (simp add: run_def test_connectivity_eq Let_def)

lemma truthy_Some: "truthy x \<Longrightarrow> \<exists>v. x = Some v \<and> v \<noteq> []"
  by (cases x) auto

lemma None_in_jx_build_ssh_command:
  "None \<in> set (jx_build_ssh_command x cargs) \<longleftrightarrow> None \<in> set cargs"
  by (cases "jx_ssh_key x") (auto simp: jx_build_ssh_command_def Let_def)

lemma None_in_jx_scp_command: "None \<notin> set (jx_scp_command x p r)"
  by (cases "jx_ssh_key x") (auto simp: jx_scp_command_def Let_def)

lemma jx_save_output_file_result [simp]: "result (jx_save_output_file lib w x s) = result s"
  by (simp add: jx_save_output_file_def split: sum.splits)

lemma jx_save_output_file_files:
  "files (jx_save_output_file lib w x s) =
     files s @ (if jx_save_output x \<and> mkdir_ok w (jx_audit_dir x) then
                  (case jx_output_file lib x of
                     Inl e \<Rightarrow> []
                   | Inr f \<Rightarrow> if open_ok w f then [(f, result s)] else [])
                else [])"
  by (simp add: jx_save_output_file_def split: sum.splits)

lemma run_keeps_remote_script_path:
  "\<exists>ok s'. run lib w self keep s = Inr (ok, s')
     \<and> remote_script_path (result s') = remote_script_path (result s)"
proof (cases "preflight_fails w self s")
  case True
  then show ?thesis by (auto simp: run_eq Let_def add_error_def)
next
  case False
  then have chain: "jump_chain self \<noteq> None" by (simp add: preflight_fails_def)
  show ?thesis
  proof (cases "truthy (command self)")
    case True
    then have "command self \<noteq> None" by (cases "command self") auto
    then show ?thesis
      using False True
      by (auto simp: run_eq Let_def execute_command_eq [OF chain] record_outcome_def add_error_def
          split: outcome.splits)
  next
    case nocmd: False
    show ?thesis
    proof (cases "truthy (script self)")
      case True
      then obtain p where p: "script self = Some p" using truthy_Some by blast
      show ?thesis
        using False nocmd True p
        by (auto simp: run_eq Let_def execute_script_eq [OF chain p] record_outcome_def add_error_def
            split: outcome.splits)
    next
      case False
      then show ?thesis
        using \<open>\<not> preflight_fails w self s\<close> nocmd
        by (auto simp: run_eq Let_def)
    qed
  qed
qed

lemma jx_test_connectivity_eq:
  "jx_test_connectivity w x s =
     (let s1 = s\<lparr>calls := calls s @ [(jx_build_ssh_command x [Some echo_connection_successful], Some 10)]\<rparr>
      in case subprocess w (length (calls s)) of
           Completed rc out err \<Rightarrow>
             if rc = 0 then (True, s1) else (False, add_error (ConnectionTestFailedWith err) s1)
         | Raised e \<Rightarrow> (False, add_error (ExcStr e) s1))"
  by (auto simp: jx_test_connectivity_def subprocess_run_def None_in_jx_build_ssh_command Let_def
      split: outcome.splits)

lemma jx_run_remote_script_path:
  assumes "remote_script_path (result s) = None"
  shows "\<exists>ok s'. jx_run lib w x keep s = Inr (ok, s')
     \<and> remote_script_path (result s') =
         (case jx_script x of
            None \<Rightarrow> None
          | Some p \<Rightarrow>
              if p \<noteq> [] \<and> \<not> truthy (jx_command x)
                 \<and> returns_code w (length (calls s)) 0
                 \<and> returns_code w (length (calls s) + 1) 0
                 \<and> returns w (length (calls s) + 2)
                 \<and> returns w (length (calls s) + 3)
              then Some (remote_script_of lib w p) else None)
     \<and> (files s' = files s \<or> (\<exists>f. files s' = files s @ [(f, result s')]))"
proof (cases "returns_code w (length (calls s)) 0")
  case False
  then show ?thesis
    using assms
    by (auto simp: jx_run_def jx_test_connectivity_eq Let_def returns_code_def add_error_def
        jx_save_output_file_files split: outcome.splits option.splits sum.splits)
next
  case True
  show ?thesis
  proof (cases "truthy (jx_command x)")
    case cmd: True
    then obtain c where c: "jx_command x = Some c" using truthy_Some by blast
    show ?thesis
      using True cmd c assms
      by (auto simp: jx_run_def jx_test_connectivity_eq Let_def returns_code_def add_error_def
          jx_execute_command_def subprocess_run_def None_in_jx_build_ssh_command
          record_outcome_def jx_save_output_file_files
          split: outcome.splits option.splits sum.splits)
  next
    case nocmd: False
    show ?thesis
    proof (cases "jx_script x")
      case None
      then show ?thesis
        using True nocmd assms
        by (auto simp: jx_run_def jx_test_connectivity_eq Let_def returns_code_def
            split: outcome.splits)
    next
      case (Some p)
      show ?thesis
        using True nocmd Some assms
        by (auto simp: jx_run_def jx_test_connectivity_eq Let_def returns_code_def returns_def
            add_error_def jx_execute_script_def subprocess_run_def
            None_in_jx_build_ssh_command None_in_jx_scp_command
            record_outcome_def set_remote_script_path_def numeral_2_eq_2 numeral_3_eq_3
            jx_save_output_file_files
            split: outcome.splits sum.splits)
    qed
  qed
qed

lemma add_error_files [simp]: "files (add_error e s) = files s"
  by (simp add: add_error_def)

lemma add_error_result [simp]:
  "result (add_error e s) = (result s)\<lparr>errors := errors (result s) @ [e]\<rparr>"
  by (simp add: add_error_def)

lemma record_outcome_files [simp]: "files (record_outcome rc out err s) = files s"
  by (simp add: record_outcome_def)

lemma record_outcome_result [simp]:
  "result (record_outcome rc out err s) =
     (result s)\<lparr>res_output := out @ err, exit_code := Some rc, success := (rc = 0)\<rparr>"
  by (simp add: record_outcome_def)

lemma str_nat_4242: "str_nat 4242 = ''4242''"
  by (simp add: str_nat.simps)

lemma main_demo:
  "truthy cmd \<or> truthy scr \<Longrightarrow>
   main ipv4_lib (demo_world demo_routes xs) (demo_args cmd scr keep nosave) =
     (case run ipv4_lib (demo_world demo_routes xs) (demo_router cmd scr (\<not> nosave)) keep
             (demo_state cmd scr) of
        Inl e \<Rightarrow> \<lparr>status = 1, printed = [Traceback e], invoked = [], written = []\<rparr>
      | Inr (ok, s1) \<Rightarrow>
          \<lparr>status = (if ok then 0 else 1), printed = [], invoked = calls s1, written = files s1\<rparr>)"
  by (auto simp: main_def demo_args_def demo_init demo_state_def split: sum.splits)

lemma demo_state_simps [simp]:
  "calls (demo_state cmd scr) = []" "files (demo_state cmd scr) = []"
  "result (demo_state cmd scr) = demo_result cmd scr"
  by (simp_all add: demo_state_def)

lemma demo_remote_script:
  "remote_script_of ipv4_lib (demo_world rs xs) ''fix.sh'' = ''/tmp/fix.sh.4242''"
  by (simp add: remote_script_of_def ipv4_lib_def demo_world_def str_nat_4242)

lemma demo_audit_path_command:
  "audit_path ipv4_lib (demo_world rs xs) (demo_router (Some ''uptime'') scr save)
     = (if save then Some ''/var/audit/10.1.2.3/uptime-20240101-120000.json'' else None)"
  by (simp add: audit_path_def demo_router_def demo_world_def output_file_def ipv4_lib_def
      index_first_def path_join_def)

lemma demo_audit_path_script:
  "audit_path ipv4_lib (demo_world rs xs) (demo_router None (Some ''fix.sh'') save)
     = (if save then Some ''/var/audit/10.1.2.3/script-fix-20240101-120000.json'' else None)"
  by (simp add: audit_path_def demo_router_def demo_world_def output_file_def ipv4_lib_def
      script_output_file_def path_join_def)

lemma demo_probe:
  "ssh_call (demo_router cmd scr save) (Some c) tmo =
     ([Some ''ssh'', Some ''-o'', Some ''StrictHostKeyChecking=accept-new'',
       Some ''-o'', Some ''ConnectTimeout=10'', Some ''-J'', Some ''jumpA'',
       Some ''root@10.1.2.3'', Some c], tmo)"
  by (simp add: ssh_call_def build_ssh_command_def demo_router_def)

lemma demo_scp:
  "scp_command (demo_router cmd scr save) ''fix.sh'' ''/tmp/fix.sh.4242'' =
     [Some ''scp'', Some ''-o'', Some ''StrictHostKeyChecking=accept-new'',
      Some ''-o'', Some ''ProxyJump=jumpA'', Some ''fix.sh'',
      Some ''root@10.1.2.3:/tmp/fix.sh.4242'']"
  by (simp add: scp_command_def demo_router_def)

section \<open>Preflight\<close>

text \<open>
  C5, as the program has it. When the preflight fails (the probe returns a nonzero code,
  times out, raises, or cannot be started), the run returns False after that one call:
  no command, copy or script is started. The connectivity error is appended to the
  result, and \<^verbatim>\<open>save_output_file\<close> runs on that partial result: the record is written
  when saving is enabled and the directory, the file name and the file can be made
  (\<open>audit_path\<close>), and not otherwise.
\<close>

theorem preflight_failure_stops_run:
  assumes "preflight_fails w self s"
  shows "\<exists>s'. run lib w self keep s = Inr (False, s')
           \<and> calls s' = calls s @ [ssh_call self (Some echo_ok) (Some 10)]
           \<and> result s' = (result s)\<lparr>errors := errors (result s) @ [preflight_error w self s]\<rparr>
           \<and> files s' = files s @ (case audit_path lib w self of
                                      None \<Rightarrow> []
                                    | Some f \<Rightarrow> [(f, result s')])"
  using assms
  by (simp add: run_eq Let_def save_output_file_files add_error_def split: option.splits)

theorem preflight_failure_stops_run_witness:
  "preflight_fails (demo_world demo_routes [Raised TimeoutExpired])
     (demo_router (Some ''uptime'') None True) (demo_state (Some ''uptime'') None)
   \<and> (\<exists>s'. run ipv4_lib (demo_world demo_routes [Raised TimeoutExpired])
               (demo_router (Some ''uptime'') None True) False
               (demo_state (Some ''uptime'') None) = Inr (False, s')
            \<and> calls s' = [([Some ''ssh'', Some ''-o'', Some ''StrictHostKeyChecking=accept-new'',
                             Some ''-o'', Some ''ConnectTimeout=10'', Some ''-J'', Some ''jumpA'',
                             Some ''root@10.1.2.3'', Some echo_ok], Some 10)]
            \<and> result s' = (demo_result (Some ''uptime'') None)\<lparr>errors := [ExcStr TimeoutExpired]\<rparr>
            \<and> files s' = [(''/var/audit/10.1.2.3/uptime-20240101-120000.json'', result s')])"
proof -
  let ?w = "demo_world demo_routes [Raised TimeoutExpired]"
  let ?r = "demo_router (Some ''uptime'') None True"
  let ?s = "demo_state (Some ''uptime'') None"
  have pf: "preflight_fails ?w ?r ?s"
    by (simp add: preflight_fails_def demo_world_def outcomes_def demo_router_def)
  have pe: "preflight_error ?w ?r ?s = ExcStr TimeoutExpired"
    by (simp add: preflight_error_def demo_world_def outcomes_def demo_router_def)
  have er: "errors (demo_result (Some ''uptime'') None) = []"
    by (simp add: demo_result_def)
  show ?thesis
    using pf preflight_failure_stops_run [OF pf, of ipv4_lib False]
    by (simp add: pe er demo_audit_path_command demo_probe)
qed

text \<open>
  C5 as stated fails on a run with \<^verbatim>\<open>--no-save\<close>: the probe returns 255, the process
  ends with status 1 after that one call, and no audit record is written.
\<close>

theorem preflight_no_save_counterexample:
  "main ipv4_lib (demo_world demo_routes [Completed 255 [] ''timed out''])
     (demo_args (Some ''uptime'') None False True)
   = \<lparr>status = 1, printed = [],
      invoked = [([Some ''ssh'', Some ''-o'', Some ''StrictHostKeyChecking=accept-new'',
                   Some ''-o'', Some ''ConnectTimeout=10'', Some ''-J'', Some ''jumpA'',
                   Some ''root@10.1.2.3'', Some echo_ok], Some 10)],
      written = []\<rparr>"
proof -
  have "preflight_fails (demo_world demo_routes [Completed 255 [] ''timed out''])
          (demo_router (Some ''uptime'') None False) (demo_state (Some ''uptime'') None)"
    by (simp add: preflight_fails_def demo_world_def outcomes_def demo_router_def)
  then show ?thesis
    by (simp add: main_demo run_eq Let_def save_output_file_files demo_audit_path_command
        demo_probe)
qed

section \<open>Script runs\<close>

text \<open>
  What holds of a failed upload in general: the run returns False after the probe and
  the copy, and a copy that returned a nonzero code leaves the list of errors as it was.
\<close>

lemma upload_failure_stops_script:
  assumes "\<not> preflight_fails w self s" "script_payload self" "script self = Some p"
    and "\<not> returns_code w (length (calls s) + 1) 0"
  shows "\<exists>s'. run lib w self keep s = Inr (False, s')
           \<and> calls s' = calls s @ [ssh_call self (Some echo_ok) (Some 10),
                                   (scp_command self p (remote_script_of lib w p), None)]
           \<and> (returns w (length (calls s) + 1) \<longrightarrow> errors (result s') = errors (result s))"
proof -
  have chain: "jump_chain self \<noteq> None" using assms(1) by (simp add: preflight_fails_def)
  show ?thesis
    using assms
    by (auto simp: run_eq Let_def execute_script_eq [OF chain assms(3)] script_payload_def
        returns_code_def returns_def split: outcome.splits)
qed

text \<open>
  C6, evaluated on a run whose copy returns 1. Neither \<^verbatim>\<open>chmod\<close>, the script nor the
  cleanup is started and the status is 1, as the claim says; but the record that is
  written has an empty list of errors: this \<^verbatim>\<open>execute_script\<close> returns without appending
  an upload error (the one of \<^verbatim>\<open>ssh_jump_exec.py\<close> appends one).
\<close>

theorem upload_failure_not_recorded:
  "main ipv4_lib
     (demo_world demo_routes [Completed 0 ''ok'' [], Completed 1 [] ''Permission denied''])
     (demo_args None (Some ''fix.sh'') False False)
   = \<lparr>status = 1, printed = [],
      invoked = [([Some ''ssh'', Some ''-o'', Some ''StrictHostKeyChecking=accept-new'',
                   Some ''-o'', Some ''ConnectTimeout=10'', Some ''-J'', Some ''jumpA'',
                   Some ''root@10.1.2.3'', Some echo_ok], Some 10),
                 ([Some ''scp'', Some ''-o'', Some ''StrictHostKeyChecking=accept-new'',
                   Some ''-o'', Some ''ProxyJump=jumpA'', Some ''fix.sh'',
                   Some ''root@10.1.2.3:/tmp/fix.sh.4242''], None)],
      written = [(''/var/audit/10.1.2.3/script-fix-20240101-120000.json'',
                  demo_result None (Some ''fix.sh''))]\<rparr>
   \<and> errors (demo_result None (Some ''fix.sh'')) = []"
proof -
  let ?w = "demo_world demo_routes [Completed 0 ''ok'' [], Completed 1 [] ''Permission denied'']"
  let ?r = "demo_router None (Some ''fix.sh'') True"
  have pf: "\<not> preflight_fails ?w ?r (demo_state None (Some ''fix.sh''))"
    by (simp add: preflight_fails_def demo_world_def outcomes_def demo_router_def)
  have chain: "jump_chain ?r \<noteq> None" and scr: "script ?r = Some ''fix.sh''"
    and cmd: "\<not> truthy (command ?r)" "truthy (script ?r)"
    by (simp_all add: demo_router_def)
  have w: "subprocess ?w (Suc 0) = Completed 1 [] ''Permission denied''"
    by (simp add: demo_world_def outcomes_def)
  show ?thesis
    using pf cmd w
    by (simp add: main_demo run_eq Let_def execute_script_eq [OF chain scr]
        save_output_file_files demo_audit_path_script demo_probe demo_scp demo_remote_script
        demo_result_def)
qed

text \<open>
  What holds of the cleanup in general: once the copy has succeeded and \<^verbatim>\<open>chmod\<close> has
  returned, the script is started, and the cleanup follows exactly when the script's call
  returns (with any code) and the keep flag is not set.
\<close>

lemma cleanup_unless_kept:
  assumes "\<not> preflight_fails w self s" "script_payload self" "script self = Some p"
    and "returns_code w (length (calls s) + 1) 0" "returns w (length (calls s) + 2)"
  shows "\<exists>ok s'. run lib w self keep s = Inr (ok, s')
           \<and> calls s' = calls s
                @ [ssh_call self (Some echo_ok) (Some 10),
                   (scp_command self p (remote_script_of lib w p), None),
                   ssh_call self (Some (''chmod +x '' @ remote_script_of lib w p)) None,
                   ssh_call self (Some (remote_script_of lib w p)) (Some 300)]
                @ (if returns w (length (calls s) + 3) \<and> \<not> keep
                   then [ssh_call self (Some (''rm -f '' @ remote_script_of lib w p)) None]
                   else [])"
proof -
  have chain: "jump_chain self \<noteq> None" using assms(1) by (simp add: preflight_fails_def)
  show ?thesis
    using assms
    by (auto simp: run_eq Let_def execute_script_eq [OF chain assms(3)] script_payload_def
        returns_code_def returns_def numeral_2_eq_2 numeral_3_eq_3 split: outcome.splits)
qed

text \<open>The exit code of the cleanup is not read: with any code, the script's code decides.\<close>

lemma cleanup_exit_code_ignored:
  assumes "\<not> preflight_fails w self s" "script_payload self" "script self = Some p"
    and "returns_code w (length (calls s) + 1) 0" "returns w (length (calls s) + 2)"
    and "returns w (length (calls s) + 3)" "returns w (length (calls s) + 4)"
  shows "\<exists>s'. run lib w self False s = Inr (returns_code w (length (calls s) + 3) 0, s')
           \<and> success (result s') = returns_code w (length (calls s) + 3) 0
           \<and> errors (result s') = errors (result s)"
proof -
  have chain: "jump_chain self \<noteq> None" using assms(1) by (simp add: preflight_fails_def)
  show ?thesis
    using assms
    by (auto simp: run_eq Let_def execute_script_eq [OF chain assms(3)] script_payload_def
        returns_code_def returns_def numeral_2_eq_2 numeral_3_eq_3 eval_nat_numeral
        split: outcome.splits)
qed

text \<open>
  C7, evaluated on a run without the keep flag whose script exceeds its timeout: the calls
  are the probe, the copy, \<^verbatim>\<open>chmod\<close> and the script, and no \<^verbatim>\<open>rm -f\<close> follows. The
  exception leaves the \<^verbatim>\<open>try\<close> block before the cleanup.
\<close>

theorem script_timeout_skips_cleanup:
  "main ipv4_lib
     (demo_world demo_routes
        [Completed 0 ''ok'' [], Completed 0 [] [], Completed 0 [] [], Raised TimeoutExpired])
     (demo_args None (Some ''fix.sh'') False False)
   = \<lparr>status = 1, printed = [],
      invoked = [([Some ''ssh'', Some ''-o'', Some ''StrictHostKeyChecking=accept-new'',
                   Some ''-o'', Some ''ConnectTimeout=10'', Some ''-J'', Some ''jumpA'',
                   Some ''root@10.1.2.3'', Some echo_ok], Some 10),
                 ([Some ''scp'', Some ''-o'', Some ''StrictHostKeyChecking=accept-new'',
                   Some ''-o'', Some ''ProxyJump=jumpA'', Some ''fix.sh'',
                   Some ''root@10.1.2.3:/tmp/fix.sh.4242''], None),
                 ([Some ''ssh'', Some ''-o'', Some ''StrictHostKeyChecking=accept-new'',
                   Some ''-o'', Some ''ConnectTimeout=10'', Some ''-J'', Some ''jumpA'',
                   Some ''root@10.1.2.3'', Some ''chmod +x /tmp/fix.sh.4242''], None),
                 ([Some ''ssh'', Some ''-o'', Some ''StrictHostKeyChecking=accept-new'',
                   Some ''-o'', Some ''ConnectTimeout=10'', Some ''-J'', Some ''jumpA'',
                   Some ''root@10.1.2.3'', Some ''/tmp/fix.sh.4242''], Some 300)],
      written = [(''/var/audit/10.1.2.3/script-fix-20240101-120000.json'',
                  (demo_result None (Some ''fix.sh''))\<lparr>errors := [ExcStr TimeoutExpired]\<rparr>)]\<rparr>"
proof -
  let ?w = "demo_world demo_routes
              [Completed 0 ''ok'' [], Completed 0 [] [], Completed 0 [] [], Raised TimeoutExpired]"
  let ?r = "demo_router None (Some ''fix.sh'') True"
  have pf: "\<not> preflight_fails ?w ?r (demo_state None (Some ''fix.sh''))"
    by (simp add: preflight_fails_def demo_world_def outcomes_def demo_router_def)
  have chain: "jump_chain ?r \<noteq> None" and scr: "script ?r = Some ''fix.sh''"
    and cmd: "\<not> truthy (command ?r)" "truthy (script ?r)"
    by (simp_all add: demo_router_def)
  have w: "subprocess ?w (Suc 0) = Completed 0 [] []"
    "subprocess ?w (Suc (Suc 0)) = Completed 0 [] []"
    "subprocess ?w (Suc (Suc (Suc 0))) = Raised TimeoutExpired"
    by (simp_all add: demo_world_def outcomes_def)
  have er: "errors (demo_result None (Some ''fix.sh'')) = []"
    by (simp add: demo_result_def)
  show ?thesis
    using pf cmd w
    by (simp add: main_demo run_eq Let_def execute_script_eq [OF chain scr]
        save_output_file_files demo_audit_path_script demo_probe demo_scp demo_remote_script er)
qed

lemma demo_jx_init:
  "jx_init ipv4_lib (demo_world rs (Completed 0 ''10.1.2.3'' [] # xs)) ''jumpA'' ''root@10.1.2.3''
     cmd scr None True ''/var/audit'' = Inr (demo_executor cmd scr, demo_jx_state cmd scr)"
  by (simp add: jx_init_def jx_get_target_ip_def subprocess_run_def Let_def
      None_in_jx_build_ssh_command demo_world_def outcomes_def ipv4_lib_def path_join_def
      demo_executor_def demo_jx_state_def demo_result_def jx_build_ssh_command_def)

text \<open>
  C8. The router never assigns \<^verbatim>\<open>remote_script_path\<close>: the key stays absent in every
  run. The fixed-chain executor assigns it exactly in the runs of a script (no command)
  in which the preflight and the copy returned 0, \<^verbatim>\<open>chmod\<close> returned and the script's
  call returned, with whatever exit code; the value is the remote path. The record it
  writes, if any, is the final result.
\<close>

theorem remote_script_path_only_after_upload:
  assumes "remote_script_path (result s) = None" "remote_script_path (result t) = None"
  shows "(\<exists>ok s'. run lib w self keep s = Inr (ok, s') \<and> remote_script_path (result s') = None)
       \<and> (\<exists>ok t'. jx_run lib w x keep t = Inr (ok, t')
             \<and> remote_script_path (result t') =
                 (case jx_script x of
                    None \<Rightarrow> None
                  | Some p \<Rightarrow>
                      if p \<noteq> [] \<and> \<not> truthy (jx_command x)
                         \<and> returns_code w (length (calls t)) 0
                         \<and> returns_code w (length (calls t) + 1) 0
                         \<and> returns w (length (calls t) + 2)
                         \<and> returns w (length (calls t) + 3)
                      then Some (remote_script_of lib w p) else None)
             \<and> (files t' = files t \<or> (\<exists>f. files t' = files t @ [(f, result t')])))"
  using run_keeps_remote_script_path [of lib w self keep s] assms(1)
    jx_run_remote_script_path [OF assms(2), of lib w x keep]
  by simp

theorem remote_script_path_only_after_upload_witness:
  "(\<exists>ok s'. run ipv4_lib
               (demo_world demo_routes
                  [Completed 0 [] [], Completed 0 [] [], Completed 0 [] [],
                   Completed 3 ''partial'' ''failed'', Completed 0 [] []])
               (demo_router None (Some ''fix.sh'') True) False (demo_state None (Some ''fix.sh''))
             = Inr (ok, s') \<and> remote_script_path (result s') = None)
   \<and> (\<exists>ok t'. jx_run ipv4_lib
               (demo_world demo_routes
                  [Completed 0 ''10.1.2.3'' [], Completed 0 [] [], Completed 0 [] [],
                   Completed 0 [] [], Completed 3 ''partial'' ''failed'', Completed 0 [] []])
               (demo_executor None (Some ''fix.sh'')) False (demo_jx_state None (Some ''fix.sh''))
             = Inr (ok, t') \<and> remote_script_path (result t') = Some ''/tmp/fix.sh.4242'')
   \<and> (\<exists>ok t'. jx_run ipv4_lib
               (demo_world demo_routes
                  [Completed 0 ''10.1.2.3'' [], Completed 0 [] [], Completed 1 [] ''denied''])
               (demo_executor None (Some ''fix.sh'')) False (demo_jx_state None (Some ''fix.sh''))
             = Inr (ok, t') \<and> remote_script_path (result t') = None)"
proof -
  let ?u = "demo_world demo_routes
              [Completed 0 [] [], Completed 0 [] [], Completed 0 [] [],
               Completed 3 ''partial'' ''failed'', Completed 0 [] []]"
  let ?w = "demo_world demo_routes
              [Completed 0 ''10.1.2.3'' [], Completed 0 [] [], Completed 0 [] [],
               Completed 0 [] [], Completed 3 ''partial'' ''failed'', Completed 0 [] []]"
  let ?v = "demo_world demo_routes
              [Completed 0 ''10.1.2.3'' [], Completed 0 [] [], Completed 1 [] ''denied'']"
  let ?s = "demo_state None (Some ''fix.sh'')"
  let ?t = "demo_jx_state None (Some ''fix.sh'')"
  let ?x = "demo_executor None (Some ''fix.sh'')"
  let ?r = "demo_router None (Some ''fix.sh'') True"
  have init: "remote_script_path (result ?s) = None" "remote_script_path (result ?t) = None"
    by (simp_all add: demo_result_def demo_jx_state_def)
  have x: "jx_script ?x = Some ''fix.sh''" "\<not> truthy (jx_command ?x)" "length (calls ?t) = 1"
    by (simp_all add: demo_executor_def demo_jx_state_def)
  have w: "returns_code ?w (Suc 0) 0" "returns_code ?w (Suc (Suc 0)) 0"
    "returns ?w (Suc (Suc (Suc 0)))" "returns ?w (Suc (Suc (Suc (Suc 0))))"
    "\<not> returns_code ?v (Suc (Suc 0)) 0"
    by (simp_all add: returns_code_def returns_def demo_world_def outcomes_def)
  show ?thesis
    using remote_script_path_only_after_upload [OF init, of ipv4_lib ?u ?r False ?x]
      remote_script_path_only_after_upload [OF init, of ipv4_lib ?w ?r False ?x]
      remote_script_path_only_after_upload [OF init, of ipv4_lib ?v ?r False ?x]
    by (auto simp: x w demo_remote_script numeral_2_eq_2 numeral_3_eq_3)
qed

section \<open>Success of a run\<close>



section \<open>List mode\<close>

lemma list_routes_ignores_resolution:
  "list_routes w (self\<lparr>target_ip := ip, jump_chain := chain\<rparr>) s = list_routes w self s"
  by (simp add: list_routes_def split: prod.splits option.splits)

text \<open>
  C10. List mode builds the router for the target \<^verbatim>\<open>dummy@localhost\<close>, and the
  constructor resolves a route for it. With a route table that has no fallback entry and
  no CIDR match for the address of \<^verbatim>\<open>localhost\<close>, the process ends with status 1 and
  the message "no route found": no line of the listing is printed and no probe is run.
  The listing itself reads neither the target address nor the chain.
\<close>

theorem list_mode_needs_route:
  assumes "arg_list a"
    and "read_routes w (arg_routes a) = Json (Some rs)"
    and "default_routes rs = []"
    and "\<forall>q \<in> set rs. \<not> cidr_match lib (resolve_token lib w ''localhost'') q"
  shows "main lib w a =
           \<lparr>status = 1,
            printed = [FatalMsg (NoRouteFound (resolve_token lib w ''localhost''))],
            invoked = [], written = []\<rparr>
         \<and> (\<forall>self s ip chain.
               list_routes w (self\<lparr>target_ip := ip, jump_chain := chain\<rparr>) s
                 = list_routes w self s)"
proof -
  have "extract_ip lib w (target_spec (Some ''dummy'') ''localhost'' None)
          = Inr (resolve_token lib w ''localhost'')"
    by (rule extract_ip_target_spec) simp_all
  then have ip: "extract_ip lib w ''dummy@localhost'' = Inr (resolve_token lib w ''localhost'')"
    by (simp add: target_spec_def)
  have "find_route lib (resolve_token lib w ''localhost'') rs
          = Inl (NoRouteFound (resolve_token lib w ''localhost''))"
    using find_route_no_match [OF assms(4)] assms(3) by simp
  then show ?thesis
    using assms(1,2) ip
    by (simp add: main_def init_def load_routes_def list_routes_ignores_resolution)
qed

theorem list_mode_needs_route_witness:
  "main ipv4_lib
     (demo_world [mk_route ''10.0.0.0/8'' ''jumpA'', mk_route ''direct'' ''direct''] [])
     ((demo_args None None False False)\<lparr>arg_list := True\<rparr>)
   = \<lparr>status = 1, printed = [FatalMsg (NoRouteFound ''127.0.0.1'')], invoked = [], written = []\<rparr>"
proof -
  let ?rs = "[mk_route ''10.0.0.0/8'' ''jumpA'', mk_route ''direct'' ''direct'']"
  let ?w = "demo_world ?rs []"
  let ?a = "(demo_args None None False False)\<lparr>arg_list := True\<rparr>"
  have r: "resolve_token ipv4_lib ?w ''localhost'' = ''127.0.0.1''"
    by (simp add: resolve_token_def demo_world_def ipv4_lib_def ipv4_address_def octet_def
        digit_of_def)
  have h: "arg_list ?a" "read_routes ?w (arg_routes ?a) = Json (Some ?rs)"
    "default_routes ?rs = []"
    by (simp_all add: demo_world_def default_routes_def mk_route_def)
  have n: "\<forall>q \<in> set ?rs. \<not> cidr_match ipv4_lib (resolve_token ipv4_lib ?w ''localhost'') q"
    unfolding r by (simp add: cidr_match_def mk_route_def ipv4_defs)
  show ?thesis
    using list_mode_needs_route [OF h n] by (simp add: r)
qed

end
